theory Spec2Isabelle
  imports Complex_Main "HOL-Library.Multiset"
begin

section \<open>JavaScript values used by the server\<close>

text \<open>
  Strings are character lists. A request field that may be \<open>undefined\<close> is an option;
  JavaScript truthiness of such a field (\<open>!x\<close> holds for \<open>undefined\<close>, the empty string
  and the number 0) is written out.
\<close>

type_synonym bytes = string

definition truthy_str :: "string option \<Rightarrow> bool" where
  "truthy_str x = (case x of None \<Rightarrow> False | Some s \<Rightarrow> s \<noteq> [])"

definition truthy_num :: "nat option \<Rightarrow> bool" where
  "truthy_num x = (case x of None \<Rightarrow> False | Some n \<Rightarrow> n \<noteq> 0)"

text \<open>\<open>a || b\<close> on optional numbers.\<close>

definition or_num :: "nat option \<Rightarrow> nat option \<Rightarrow> nat option" where
  "or_num a b = (if truthy_num a then a else b)"

text \<open>\<open>a || b || d\<close> with a numeric literal \<open>d\<close> as the last operand.\<close>

definition or_default :: "nat option \<Rightarrow> nat option \<Rightarrow> nat \<Rightarrow> nat" where
  "or_default a b d = (case or_num a b of None \<Rightarrow> d | Some n \<Rightarrow> if n = 0 then d else n)"

definition lower_char :: "char \<Rightarrow> char" where
  "lower_char c =
     (let n = (of_char c :: nat) in if 65 \<le> n \<and> n \<le> 90 then char_of (n + 32) else c)"

text \<open>\<open>String.prototype.toLowerCase\<close> on the ASCII letters.\<close>

definition toLowerCase :: "string \<Rightarrow> string" where
  "toLowerCase s = map lower_char s"

text \<open>\<open>p.startsWith('/') ? p.substring(1) : p\<close>, the S3 key of a path.\<close>

definition s3_key :: "string \<Rightarrow> string" where
  "s3_key p = (case p of [] \<Rightarrow> [] | c # cs \<Rightarrow> if c = CHR ''/'' then cs else p)"

text \<open>\<open>s.includes(t)\<close>\<close>

fun includes_str :: "string \<Rightarrow> string \<Rightarrow> bool" where
  "includes_str [] t = (t = [])"
| "includes_str (c # cs) t = (take (length t) (c # cs) = t \<or> includes_str cs t)"

text \<open>
  The endpoint \<open>createS3Client\<close> configures: a host that names the provider's own service
  (it contains \<open>amazonaws.com\<close>), or no host, leaves the client on the provider's default
  endpoint; any other host is the endpoint, with \<open>https://\<close> put in front unless it starts
  with \<open>http\<close>.
\<close>

definition s3_client_endpoint :: "string \<Rightarrow> string option" where
  "s3_client_endpoint host =
     (if host \<noteq> [] \<and> \<not> includes_str host ''amazonaws.com''
      then Some (if take 4 host = ''http'' then host else ''https://'' @ host)
      else None)"

text \<open>\<open>region || 'us-east-1'\<close>\<close>

definition s3_client_region :: "string \<Rightarrow> string" where
  "s3_client_region region = (if region = [] then ''us-east-1'' else region)"

text \<open>A number inside a template literal: its decimal digits.\<close>

definition digit_char :: "nat \<Rightarrow> char" where
  "digit_char d = char_of (48 + d)"

function string_of_nat :: "nat \<Rightarrow> string" where
  "string_of_nat n =
     (if n < 10 then [digit_char n] else string_of_nat (n div 10) @ [digit_char (n mod 10)])"
  by pat_completeness auto
termination
  by (relation "measure id") auto

declare string_of_nat.simps [simp del]

section \<open>Local paths\<close>

text \<open>
  \<open>path.join\<close> of Node on a POSIX host, for two arguments: the non-empty arguments are
  joined with a slash and the result is normalised. Normalisation works on the segments
  between slashes: empty segments and \<open>.\<close> are dropped, \<open>..\<close> removes the segment before
  it (above the root of an absolute path it is dropped, in a relative path it is kept).
\<close>

fun split_on :: "char \<Rightarrow> string \<Rightarrow> string list" where
  "split_on c [] = [[]]"
| "split_on c (x # xs) =
     (if x = c then [] # split_on c xs
      else (case split_on c xs of [] \<Rightarrow> [[x]] | s # ss \<Rightarrow> (x # s) # ss))"

fun normalizeString :: "bool \<Rightarrow> string list \<Rightarrow> string list \<Rightarrow> string list" where
  "normalizeString allowAboveRoot res [] = res"
| "normalizeString allowAboveRoot res (s # ss) =
     (if s = [] \<or> s = ''.'' then normalizeString allowAboveRoot res ss
      else if s = ''..'' then
        (if res \<noteq> [] \<and> last res \<noteq> ''..'' then normalizeString allowAboveRoot (butlast res) ss
         else if allowAboveRoot then normalizeString allowAboveRoot (res @ [''..'']) ss
         else normalizeString allowAboveRoot res ss)
      else normalizeString allowAboveRoot (res @ [s]) ss)"

fun join_with :: "string list \<Rightarrow> string" where
  "join_with [] = []"
| "join_with [s] = s"
| "join_with (s # t # ss) = s @ ''/'' @ join_with (t # ss)"

definition normalize_path :: "string \<Rightarrow> string" where
  "normalize_path p =
     (if p = [] then ''.''
      else
        (let isAbsolute = (hd p = CHR ''/'');
             trailingSeparator = (last p = CHR ''/'');
             r = join_with (normalizeString (\<not> isAbsolute) [] (split_on (CHR ''/'') p))
         in if r = [] then (if isAbsolute then ''/'' else if trailingSeparator then ''./'' else ''.'')
            else (if isAbsolute then ''/'' else []) @ r @ (if trailingSeparator then ''/'' else [])))"

definition path_join :: "string \<Rightarrow> string \<Rightarrow> string" where
  "path_join a b =
     (if a = [] \<and> b = [] then ''.''
      else if a = [] then normalize_path b
      else if b = [] then normalize_path a
      else normalize_path (a @ ''/'' @ b))"

text \<open>
  The staging file of a transfer: \<open>path.join(__dirname, `temp_${Date.now()}_${fileName}`)\<close>,
  with the server's directory and the clock reading in milliseconds as parameters.
\<close>

definition tempFile :: "string \<Rightarrow> nat \<Rightarrow> string \<Rightarrow> string" where
  "tempFile dirname now fileName =
     path_join dirname (''temp_'' @ string_of_nat now @ ''_'' @ fileName)"

section \<open>Stored credentials\<close>

record credentials =
  username :: string
  password :: string
  port :: "nat option"
  secure :: "bool option"

text \<open>
  \<open>getConnectionCredentials\<close>: the entry under the key \<open>userId:connectionId\<close>, or
  \<open>null\<close> when there is none or a decrypted field is empty. The store maps a key to
  the decrypted entry; an entry that fails to decrypt is an absent one.
\<close>

definition getConnectionCredentials ::
  "(string \<rightharpoonup> credentials) \<Rightarrow> string \<Rightarrow> string \<Rightarrow> credentials option" where
  "getConnectionCredentials store connectionId userId =
     (case store (userId @ '':'' @ connectionId) of
        None \<Rightarrow> None
      | Some stored \<Rightarrow>
          if username stored = [] \<or> password stored = [] then None else Some stored)"

section \<open>The world the transfer endpoint acts on\<close>

text \<open>
  A remote endpoint is what a transport session is opened to: an SFTP or FTP server at a
  host and port, or a bucket reached through an S3 client, which is configured with a
  custom endpoint (or none, for the provider's default one) and a region.
\<close>

datatype endpoint =
    SftpServer string nat
  | FtpServer string nat
  | S3Bucket "string option" string string

text \<open>
  A remote file is named by an endpoint and a path or key there, and two names may denote
  one file: two host names of one server, two protocols onto one file system, two regions
  or spellings for one bucket. Which file a name denotes is the far side's matter; the
  world records it in \<open>locate\<close>, with one of the file's names standing for the file, and
  records what each file holds. The local disk holds the staging files.
\<close>

type_synonym place = "endpoint \<times> string"

record world =
  locate :: "endpoint \<Rightarrow> string \<Rightarrow> place"
  file_at :: "place \<rightharpoonup> bytes"
  disk :: "string \<rightharpoonup> bytes"

text \<open>What is held under a name.\<close>

definition remote :: "world \<Rightarrow> endpoint \<Rightarrow> string \<rightharpoonup> bytes" where
  "remote w ep a = file_at w (locate w ep a)"

text \<open>
  The remote operations the server starts, in order: each names the endpoint, the login
  the session is opened with (user name and password, either possibly \<open>undefined\<close>) and
  the file. An operation is recorded when the server starts it, whatever its outcome.
\<close>

type_synonym login = "string option \<times> string option"

datatype event =
    Get endpoint login string
  | Put endpoint login string
  | Del endpoint login string
  | Copy endpoint login string string

text \<open>
  What the far side does with one operation is not decided by the server's code: it
  succeeds, or it fails with a message (the session does not open, the server refuses,
  the connection drops), and a failed download or upload may leave a partial file behind.
\<close>

datatype outcome =
    Succeeds
  | Fails string "bytes option"

record env =
  dl :: outcome
  ul :: outcome
  rm :: outcome

datatype error =
    UnsupportedSource "string option"
  | UnsupportedDest "string option"
  | AdapterError string
  | NoSuchFile string

type_synonym step = "(error + unit) \<times> world \<times> event list"

definition put_disk :: "string \<Rightarrow> bytes option \<Rightarrow> world \<Rightarrow> world" where
  "put_disk p c w = (case c of None \<Rightarrow> w | Some b \<Rightarrow> w\<lparr>disk := (disk w)(p \<mapsto> b)\<rparr>)"

definition put_remote :: "endpoint \<Rightarrow> string \<Rightarrow> bytes option \<Rightarrow> world \<Rightarrow> world" where
  "put_remote ep a c w =
     (case c of None \<Rightarrow> w | Some b \<Rightarrow> w\<lparr>file_at := (file_at w)(locate w ep a \<mapsto> b)\<rparr>)"

definition drop_remote :: "endpoint \<Rightarrow> string \<Rightarrow> world \<Rightarrow> world" where
  "drop_remote ep a w = w\<lparr>file_at := (file_at w)(locate w ep a := None)\<rparr>"

text \<open>
  Download of remote file \<open>a\<close> into local file \<open>tmp\<close> (\<open>sftp.fastGet\<close>,
  \<open>ftpClient.downloadTo\<close>, \<open>GetObjectCommand\<close> piped into a write stream). A download
  that reports success has copied the remote content; a missing remote file is an error.
\<close>

definition download_to ::
  "endpoint \<Rightarrow> login \<Rightarrow> string \<Rightarrow> string \<Rightarrow> outcome \<Rightarrow> world \<Rightarrow> step" where
  "download_to ep lg a tmp oc w =
     (case oc of
        Fails m partial \<Rightarrow> (Inl (AdapterError m), put_disk tmp partial w, [Get ep lg a])
      | Succeeds \<Rightarrow>
          (case remote w ep a of
             None \<Rightarrow> (Inl (NoSuchFile a), w, [Get ep lg a])
           | Some c \<Rightarrow> (Inr (), put_disk tmp (Some c) w, [Get ep lg a])))"

text \<open>
  Upload of local file \<open>tmp\<close> to remote file \<open>a\<close> (\<open>sftp.fastPut\<close>,
  \<open>ftpClient.uploadFrom\<close>, \<open>fs.readFileSync\<close> and \<open>PutObjectCommand\<close>). An upload that
  reports success has stored the local content.
\<close>

definition upload_from ::
  "endpoint \<Rightarrow> login \<Rightarrow> string \<Rightarrow> string \<Rightarrow> outcome \<Rightarrow> world \<Rightarrow> step" where
  "upload_from ep lg tmp a oc w =
     (case oc of
        Fails m partial \<Rightarrow> (Inl (AdapterError m), put_remote ep a partial w, [Put ep lg a])
      | Succeeds \<Rightarrow>
          (case disk w tmp of
             None \<Rightarrow> (Inl (NoSuchFile tmp), w, [Put ep lg a])
           | Some c \<Rightarrow> (Inr (), put_remote ep a (Some c) w, [Put ep lg a])))"

text \<open>
  Removal of remote file \<open>a\<close> (\<open>sftp.unlink\<close>, \<open>ftpClient.remove\<close>,
  \<open>DeleteObjectsCommand\<close>). A removal that reports success has removed the file; one that
  fails has removed nothing.
\<close>

definition delete_at :: "endpoint \<Rightarrow> login \<Rightarrow> string \<Rightarrow> outcome \<Rightarrow> world \<Rightarrow> step" where
  "delete_at ep lg a oc w =
     (case oc of
        Fails m partial \<Rightarrow> (Inl (AdapterError m), w, [Del ep lg a])
      | Succeeds \<Rightarrow> (Inr (), drop_remote ep a w, [Del ep lg a]))"

text \<open>
  Server-side copy inside one bucket (\<open>CopyObjectCommand\<close>). A copy that reports success
  has stored the source's content under the new key; one that fails has stored nothing.
\<close>

definition copy_object ::
  "endpoint \<Rightarrow> login \<Rightarrow> string \<Rightarrow> string \<Rightarrow> outcome \<Rightarrow> world \<Rightarrow> step" where
  "copy_object ep lg a b oc w =
     (case oc of
        Fails m partial \<Rightarrow> (Inl (AdapterError m), w, [Copy ep lg a b])
      | Succeeds \<Rightarrow>
          (case remote w ep a of
             None \<Rightarrow> (Inl (NoSuchFile a), w, [Copy ep lg a b])
           | Some c \<Rightarrow> (Inr (), put_remote ep b (Some c) w, [Copy ep lg a b])))"

text \<open>Sequencing inside the \<open>try\<close> block: the first error skips what follows.\<close>

definition and_then :: "step \<Rightarrow> (world \<Rightarrow> step) \<Rightarrow> step" where
  "and_then s f =
     (case s of
        (Inl e, w, tr) \<Rightarrow> (Inl e, w, tr)
      | (Inr u, w, tr) \<Rightarrow> (case f w of (r, w', tr') \<Rightarrow> (r, w', tr @ tr')))"

section \<open>The transfer endpoint\<close>

record connection =
  conn_id :: string
  conn_type :: "string option"
  conn_host :: string
  conn_port :: "nat option"
  conn_bucket :: string
  conn_region :: string

record transfer_request =
  srcConnection :: connection
  dstConnection :: connection
  srcPath :: string
  dstPath :: string
  fileName :: string
  isMove :: bool
  isDir :: bool

text \<open>A response is a status code and what the JSON body says.\<close>

datatype reply =
    FolderTransferNotSupported
  | FileMoved
  | FileCopied
  | FileRenamed
  | FieldsRequired
  | CredentialsNotFound
  | NoFileSent
  | ErrorMessage error

type_synonym response = "nat \<times> reply"

text \<open>\<open>(connection.type || '').toLowerCase()\<close>\<close>

definition kind_of :: "connection \<Rightarrow> string" where
  "kind_of c = toLowerCase (case conn_type c of None \<Rightarrow> [] | Some t \<Rightarrow> t)"

text \<open>\<open>creds?.port || connection.port || d\<close>\<close>

definition session_port :: "credentials option \<Rightarrow> connection \<Rightarrow> nat \<Rightarrow> nat" where
  "session_port creds c d = or_default (Option.bind creds port) (conn_port c) d"

text \<open>
  The bucket the client made by
  \<open>createS3Client(connection.host, ..., connection.region)\<close> addresses with
  \<open>Bucket: connection.bucket\<close>.
\<close>

definition s3_bucket :: "connection \<Rightarrow> endpoint" where
  "s3_bucket c =
     S3Bucket (s3_client_endpoint (conn_host c)) (s3_client_region (conn_region c)) (conn_bucket c)"

text \<open>\<open>creds?.username\<close> and \<open>creds?.password\<close>\<close>

definition login_of :: "credentials option \<Rightarrow> login" where
  "login_of creds = (map_option username creds, map_option password creds)"

text \<open>Step 1: download from the source into the staging file.\<close>

definition step1 ::
  "credentials option \<Rightarrow> connection \<Rightarrow> string \<Rightarrow> string \<Rightarrow> outcome \<Rightarrow> world \<Rightarrow> step" where
  "step1 srcCreds src spath tmp oc w =
     (let srcType = kind_of src;
          lg = login_of srcCreds
      in if srcType = ''sftp'' then
           download_to (SftpServer (conn_host src) (session_port srcCreds src 22)) lg spath tmp oc w
         else if srcType = ''ftp'' then
           download_to (FtpServer (conn_host src) (session_port srcCreds src 21)) lg spath tmp oc w
         else if srcType = ''s3'' then
           download_to (s3_bucket src) lg (s3_key spath) tmp oc w
         else (Inl (UnsupportedSource (conn_type src)), w, []))"

text \<open>Step 2: upload the staging file to the destination.\<close>

definition step2 ::
  "credentials option \<Rightarrow> connection \<Rightarrow> string \<Rightarrow> string \<Rightarrow> outcome \<Rightarrow> world \<Rightarrow> step" where
  "step2 dstCreds dst tmp dpath oc w =
     (let dstType = kind_of dst;
          lg = login_of dstCreds
      in if dstType = ''sftp'' then
           upload_from (SftpServer (conn_host dst) (session_port dstCreds dst 22)) lg tmp dpath oc w
         else if dstType = ''ftp'' then
           upload_from (FtpServer (conn_host dst) (session_port dstCreds dst 21)) lg tmp dpath oc w
         else if dstType = ''s3'' then
           upload_from (s3_bucket dst) lg tmp (s3_key dpath) oc w
         else (Inl (UnsupportedDest (conn_type dst)), w, []))"

text \<open>Step 3: if the request is a move, delete from the source.\<close>

definition step3 ::
  "bool \<Rightarrow> credentials option \<Rightarrow> connection \<Rightarrow> string \<Rightarrow> outcome \<Rightarrow> world \<Rightarrow> step" where
  "step3 move srcCreds src spath oc w =
     (let srcType = kind_of src;
          lg = login_of srcCreds
      in if move then
           (if srcType = ''sftp'' then
              delete_at (SftpServer (conn_host src) (session_port srcCreds src 22)) lg spath oc w
            else if srcType = ''ftp'' then
              delete_at (FtpServer (conn_host src) (session_port srcCreds src 21)) lg spath oc w
            else if srcType = ''s3'' then
              delete_at (s3_bucket src) lg (s3_key spath) oc w
            else (Inr (), w, []))
         else (Inr (), w, []))"

text \<open>\<open>if (fs.existsSync(tempFile)) fs.unlinkSync(tempFile)\<close>\<close>

definition cleanup :: "string \<Rightarrow> world \<Rightarrow> world" where
  "cleanup tmp w = (if disk w tmp \<noteq> None then w\<lparr>disk := (disk w)(tmp := None)\<rparr> else w)"

text \<open>The body of the \<open>try\<close> block, up to the cleanup of the success path.\<close>

definition transfer_steps ::
  "(string \<rightharpoonup> credentials) \<Rightarrow> string \<Rightarrow> string \<Rightarrow> env \<Rightarrow> transfer_request \<Rightarrow> world \<Rightarrow> step" where
  "transfer_steps store userId tmp e req w =
     (let srcCreds = getConnectionCredentials store (conn_id (srcConnection req)) userId;
          dstCreds = getConnectionCredentials store (conn_id (dstConnection req)) userId
      in and_then
           (and_then (step1 srcCreds (srcConnection req) (srcPath req) tmp (dl e) w)
                     (step2 dstCreds (dstConnection req) tmp (dstPath req) (ul e)))
           (step3 (isMove req) srcCreds (srcConnection req) (srcPath req) (rm e)))"

text \<open>
  \<open>app.post('/api/fs/transfer')\<close> for an authenticated user: the response, the world
  after the handler has settled, and the calls it issued.
\<close>

definition transfer ::
  "(string \<rightharpoonup> credentials) \<Rightarrow> string \<Rightarrow> string \<Rightarrow> nat \<Rightarrow> env \<Rightarrow> transfer_request \<Rightarrow> world
     \<Rightarrow> response \<times> world \<times> event list" where
  "transfer store userId dirname now e req w =
     (if isDir req then ((400, FolderTransferNotSupported), w, [])
      else
        (let tmp = tempFile dirname now (fileName req) in
         case transfer_steps store userId tmp e req w of
           (Inr u, w', tr) \<Rightarrow> ((200, if isMove req then FileMoved else FileCopied), cleanup tmp w', tr)
         | (Inl err, w', tr) \<Rightarrow> ((500, ErrorMessage err), cleanup tmp w', tr)))"

text \<open>
  The handler is an \<open>async\<close> function: at every \<open>await\<close> it is suspended, and
  the server runs the other handlers, which work on the same disk and the same remote
  files. Each step has one remote operation that acts on the world (the download, the
  upload, the delete), between the \<open>await\<close> that opens the session and the one that
  takes the acknowledgement. What the other handlers do to the world between this
  handler's download and its upload, between its upload and its delete, and between its
  delete and its resumption is given by three functions; each is applied after the
  step's remote operation whatever its outcome. A step that started no remote operation
  has not been suspended. The clean-up and the response follow the resumption after the
  last step without an \<open>await\<close>.
\<close>

record others =
  after_step1 :: "world \<Rightarrow> world"
  after_step2 :: "world \<Rightarrow> world"
  after_step3 :: "world \<Rightarrow> world"

definition meanwhile :: "(world \<Rightarrow> world) \<Rightarrow> step \<Rightarrow> step" where
  "meanwhile f s = (case s of (r, w, tr) \<Rightarrow> (r, if tr = [] then w else f w, tr))"

definition transfer_steps_among ::
  "others \<Rightarrow> (string \<rightharpoonup> credentials) \<Rightarrow> string \<Rightarrow> string \<Rightarrow> env \<Rightarrow> transfer_request
     \<Rightarrow> world \<Rightarrow> step" where
  "transfer_steps_among oth store userId tmp e req w =
     (let srcCreds = getConnectionCredentials store (conn_id (srcConnection req)) userId;
          dstCreds = getConnectionCredentials store (conn_id (dstConnection req)) userId
      in and_then
           (and_then
              (meanwhile (after_step1 oth)
                 (step1 srcCreds (srcConnection req) (srcPath req) tmp (dl e) w))
              (\<lambda>w'. meanwhile (after_step2 oth)
                 (step2 dstCreds (dstConnection req) tmp (dstPath req) (ul e) w')))
           (\<lambda>w'. meanwhile (after_step3 oth)
              (step3 (isMove req) srcCreds (srcConnection req) (srcPath req) (rm e) w')))"

text \<open>\<open>app.post('/api/fs/transfer')\<close> on a server that runs other handlers as well.\<close>

definition transfer_among ::
  "others \<Rightarrow> (string \<rightharpoonup> credentials) \<Rightarrow> string \<Rightarrow> string \<Rightarrow> nat \<Rightarrow> env \<Rightarrow> transfer_request
     \<Rightarrow> world \<Rightarrow> response \<times> world \<times> event list" where
  "transfer_among oth store userId dirname now e req w =
     (if isDir req then ((400, FolderTransferNotSupported), w, [])
      else
        (let tmp = tempFile dirname now (fileName req) in
         case transfer_steps_among oth store userId tmp e req w of
           (Inr u, w', tr) \<Rightarrow> ((200, if isMove req then FileMoved else FileCopied), cleanup tmp w', tr)
         | (Inl err, w', tr) \<Rightarrow> ((500, ErrorMessage err), cleanup tmp w', tr)))"

text \<open>No other handler runs.\<close>

definition alone :: others where
  "alone = \<lparr>after_step1 = (\<lambda>w. w), after_step2 = (\<lambda>w. w), after_step3 = (\<lambda>w. w)\<rparr>"

text \<open>
  Where a connection's files live: the endpoint its sessions reach (none for a kind the
  endpoint has no branch for) and the address of a path there.
\<close>

definition endpoint_of :: "credentials option \<Rightarrow> connection \<Rightarrow> endpoint option" where
  "endpoint_of creds c =
     (let t = kind_of c
      in if t = ''sftp'' then Some (SftpServer (conn_host c) (session_port creds c 22))
         else if t = ''ftp'' then Some (FtpServer (conn_host c) (session_port creds c 21))
         else if t = ''s3'' then Some (s3_bucket c)
         else None)"

definition address_of :: "connection \<Rightarrow> string \<Rightarrow> string" where
  "address_of c p = (if kind_of c = ''s3'' then s3_key p else p)"

abbreviation result_of :: "'a \<times> 'b \<times> 'c \<Rightarrow> 'a" where
  "result_of t \<equiv> fst t"

abbreviation world_of :: "'a \<times> 'b \<times> 'c \<Rightarrow> 'b" where
  "world_of t \<equiv> fst (snd t)"

abbreviation calls_of :: "'a \<times> 'b \<times> 'c \<Rightarrow> 'c" where
  "calls_of t \<equiv> snd (snd t)"

text \<open>
  Phase 2 reported success: steps 1 and 2 of the handler both returned normally, on a
  server that runs other handlers as well.
\<close>

definition upload_reported_success_among ::
  "others \<Rightarrow> (string \<rightharpoonup> credentials) \<Rightarrow> string \<Rightarrow> string \<Rightarrow> env \<Rightarrow> transfer_request
     \<Rightarrow> world \<Rightarrow> bool" where
  "upload_reported_success_among oth store userId tmp e req w =
     (result_of
        (and_then
           (meanwhile (after_step1 oth)
              (step1 (getConnectionCredentials store (conn_id (srcConnection req)) userId)
                 (srcConnection req) (srcPath req) tmp (dl e) w))
           (step2 (getConnectionCredentials store (conn_id (dstConnection req)) userId)
              (dstConnection req) tmp (dstPath req) (ul e))) = Inr ())"

text \<open>The number a string of decimal digits denotes.\<close>

definition digits_value :: "string \<Rightarrow> nat" where
  "digits_value s = foldl (\<lambda>acc c. 10 * acc + (of_char c - 48)) 0 s"

text \<open>What \<open>path.join\<close> puts in front of a last segment.\<close>

definition join_prefix :: "string \<Rightarrow> string" where
  "join_prefix d =
     (if d = [] then []
      else (if hd d = CHR ''/'' then ''/'' else []) @
           (let ys = normalizeString (hd d \<noteq> CHR ''/'') [] (split_on (CHR ''/'') d)
            in if ys = [] then [] else join_with ys @ ''/''))"

subsection \<open>The spec's scenario A, as concrete data\<close>

text \<open>
  Server A is an SFTP server holding \<open>/docs/report.pdf\<close>; server B is an S3 bucket
  \<open>backup\<close>; user \<open>u1\<close> has stored credentials for both, and for the connections D, E
  and F introduced below.
\<close>

definition serverA :: connection where
  "serverA = \<lparr>conn_id = ''A'', conn_type = Some ''SFTP'', conn_host = ''a.example'',
     conn_port = None, conn_bucket = [], conn_region = []\<rparr>"

definition serverB :: connection where
  "serverB = \<lparr>conn_id = ''B'', conn_type = Some ''S3'', conn_host = ''s3.example'',
     conn_port = None, conn_bucket = ''backup'', conn_region = ''us-east-1''\<rparr>"

definition serverC :: connection where
  "serverC = \<lparr>conn_id = ''C'', conn_type = Some ''SMB'', conn_host = ''c.example'',
     conn_port = None, conn_bucket = [], conn_region = []\<rparr>"

definition stored_u1 :: "string \<rightharpoonup> credentials" where
  "stored_u1 =
     [''u1:A'' \<mapsto> \<lparr>username = ''alice'', password = ''pw-a'', port = None, secure = None\<rparr>,
      ''u1:B'' \<mapsto> \<lparr>username = ''AKIA'', password = ''pw-b'', port = None, secure = None\<rparr>,
      ''u1:D'' \<mapsto> \<lparr>username = ''dave'', password = ''pw-d'', port = None, secure = None\<rparr>,
      ''u1:E'' \<mapsto> \<lparr>username = ''AKIA'', password = ''pw-b'', port = None, secure = None\<rparr>,
      ''u1:F'' \<mapsto> \<lparr>username = ''AKIA'', password = ''pw-b'', port = None, secure = None\<rparr>]"

text \<open>In the scenarios every name denotes a file of its own.\<close>

definition worldA :: world where
  "worldA = \<lparr>locate = Pair,
             file_at = [(SftpServer ''a.example'' 22, ''/docs/report.pdf'') \<mapsto> ''%PDF-1.7''],
             disk = Map.empty\<rparr>"

definition all_succeed :: env where
  "all_succeed = \<lparr>dl = Succeeds, ul = Succeeds, rm = Succeeds\<rparr>"

definition upload_denied :: env where
  "upload_denied = \<lparr>dl = Succeeds, ul = Fails ''AccessDenied'' None, rm = Succeeds\<rparr>"

definition request_between ::
  "connection \<Rightarrow> connection \<Rightarrow> bool \<Rightarrow> bool \<Rightarrow> transfer_request" where
  "request_between src dst move dir =
     \<lparr>srcConnection = src, dstConnection = dst, srcPath = ''/docs/report.pdf'',
      dstPath = ''/archive/report.pdf'', fileName = ''report.pdf'', isMove = move, isDir = dir\<rparr>"

subsection \<open>Two transfers at once, and two names for one bucket\<close>

text \<open>
  Server D is an FTP server holding another \<open>report.pdf\<close> and a file \<open>notes.txt\<close>. While a
  move from server A runs, the same server handles a copy from D to the bucket.
\<close>

definition serverD :: connection where
  "serverD = \<lparr>conn_id = ''D'', conn_type = Some ''FTP'', conn_host = ''d.example'',
     conn_port = None, conn_bucket = [], conn_region = []\<rparr>"

definition worldAD :: world where
  "worldAD = \<lparr>locate = Pair,
              file_at = [(SftpServer ''a.example'' 22, ''/docs/report.pdf'') \<mapsto> ''%PDF-1.7'',
                         (FtpServer ''d.example'' 21, ''/pub/report.pdf'') \<mapsto> ''other'',
                         (FtpServer ''d.example'' 21, ''/pub/notes.txt'') \<mapsto> ''notes''],
              disk = Map.empty\<rparr>"

definition copy_from_D :: "string \<Rightarrow> transfer_request" where
  "copy_from_D name =
     \<lparr>srcConnection = serverD, dstConnection = serverB, srcPath = ''/pub/'' @ name,
      dstPath = ''/mirror/'' @ name, fileName = name, isMove = False, isDir = False\<rparr>"

text \<open>Steps 1 and 2 of a copy the server received at clock reading \<open>now\<close>.\<close>

definition download_of :: "nat \<Rightarrow> transfer_request \<Rightarrow> world \<Rightarrow> world" where
  "download_of now req w =
     world_of (step1 (getConnectionCredentials stored_u1 (conn_id (srcConnection req)) ''u1'')
                 (srcConnection req) (srcPath req) (tempFile ''/app'' now (fileName req)) Succeeds w)"

definition upload_of :: "nat \<Rightarrow> transfer_request \<Rightarrow> world \<Rightarrow> world" where
  "upload_of now req w =
     world_of (step2 (getConnectionCredentials stored_u1 (conn_id (dstConnection req)) ''u1'')
                 (dstConnection req) (tempFile ''/app'' now (fileName req)) (dstPath req) Succeeds w)"

text \<open>
  The copy of \<open>notes.txt\<close> downloads while the move downloads and uploads while the move
  uploads.
\<close>

definition copying_notes :: others where
  "copying_notes =
     \<lparr>after_step1 = download_of 1700000000000 (copy_from_D ''notes.txt''),
      after_step2 = upload_of 1700000000000 (copy_from_D ''notes.txt''),
      after_step3 = (\<lambda>w. w)\<rparr>"

text \<open>
  The copy of D's \<open>report.pdf\<close>, received in the same millisecond as the move, downloads
  after the move's download and before its upload, for instance while the move opens the
  session of step 2.
\<close>

definition copying_report :: others where
  "copying_report =
     \<lparr>after_step1 = download_of 1700000000000 (copy_from_D ''report.pdf''),
      after_step2 = (\<lambda>w. w),
      after_step3 = (\<lambda>w. w)\<rparr>"

text \<open>
  Connections E and F are two saved connections to the bucket \<open>backup\<close> of the provider's
  own service, with the host written in two ways.
\<close>

definition serverE :: connection where
  "serverE = \<lparr>conn_id = ''E'', conn_type = Some ''S3'', conn_host = ''s3.amazonaws.com'',
     conn_port = None, conn_bucket = ''backup'', conn_region = []\<rparr>"

definition serverF :: connection where
  "serverF = \<lparr>conn_id = ''F'', conn_type = Some ''S3'', conn_host = ''s3.us-east-1.amazonaws.com'',
     conn_port = None, conn_bucket = ''backup'', conn_region = ''us-east-1''\<rparr>"

definition worldE :: world where
  "worldE = \<lparr>locate = Pair,
             file_at = [(S3Bucket None ''us-east-1'' ''backup'', ''docs/report.pdf'') \<mapsto> ''%PDF-1.7''],
             disk = Map.empty\<rparr>"

definition move_E_to_F :: transfer_request where
  "move_E_to_F =
     \<lparr>srcConnection = serverE, dstConnection = serverF, srcPath = ''/docs/report.pdf'',
      dstPath = ''/docs/report.pdf'', fileName = ''report.pdf'', isMove = True, isDir = False\<rparr>"

section \<open>Endpoints of one backend\<close>

text \<open>
  The JSON body of a request: every field a handler destructures may be absent. A handler
  reads only the fields it names. The field \<open>keys\<close> is an array of keys; a value that is
  not an array is answered like an absent one.
\<close>

record request_body =
  rq_host :: "string option"
  rq_port :: "nat option"
  rq_username :: "string option"
  rq_password :: "string option"
  rq_path :: "string option"
  rq_connectionId :: "string option"
  rq_bucket :: "string option"
  rq_oldKey :: "string option"
  rq_newKey :: "string option"
  rq_region :: "string option"
  rq_remotePath :: "string option"
  rq_oldPath :: "string option"
  rq_newPath :: "string option"
  rq_srcPath :: "string option"
  rq_dstPath :: "string option"
  rq_key :: "string option"
  rq_keys :: "string list option"
  rq_srcKey :: "string option"
  rq_dstKey :: "string option"

definition str_of :: "string option \<Rightarrow> string" where
  "str_of x = (case x of None \<Rightarrow> [] | Some s \<Rightarrow> s)"

text \<open>
  The block most handlers open with:
  \<open>if (connectionId && (!username || !password)) { stored = getConnectionCredentials(...) }\<close>.
  The result is the stored entry, if one was read, and the connection ids looked up in
  the credential store.
\<close>

definition consult_store ::
  "(string \<rightharpoonup> credentials) \<Rightarrow> string \<Rightarrow> request_body \<Rightarrow> credentials option \<times> string list" where
  "consult_store store userId body =
     (if truthy_str (rq_connectionId body)
         \<and> (\<not> truthy_str (rq_username body) \<or> \<not> truthy_str (rq_password body))
      then (getConnectionCredentials store (str_of (rq_connectionId body)) userId,
            [str_of (rq_connectionId body)])
      else (None, []))"

text \<open>
  The upload handlers of SFTP, FTP and SMB do not read \<open>username\<close> and \<open>password\<close> from
  the body: \<open>if (connectionId) { stored = getConnectionCredentials(...) }\<close>.
\<close>

definition consult_store_upload ::
  "(string \<rightharpoonup> credentials) \<Rightarrow> string \<Rightarrow> request_body \<Rightarrow> credentials option \<times> string list" where
  "consult_store_upload store userId body =
     (if truthy_str (rq_connectionId body)
      then (getConnectionCredentials store (str_of (rq_connectionId body)) userId,
            [str_of (rq_connectionId body)])
      else (None, []))"

text \<open>The options a transport session is opened with.\<close>

record session =
  s_host :: string
  s_port :: nat
  s_username :: string
  s_password :: string

text \<open>
  \<open>app.post('/api/fs/sftp/list')\<close> up to \<open>client.connect\<close>: the 400 answer or the session
  options, and the store lookups made.
\<close>

definition sftp_list_session ::
  "(string \<rightharpoonup> credentials) \<Rightarrow> string \<Rightarrow> request_body \<Rightarrow> (response + session) \<times> string list" where
  "sftp_list_session store userId body =
     (let (stored, lookups) = consult_store store userId body;
          finalUsername = (case stored of None \<Rightarrow> rq_username body | Some c \<Rightarrow> Some (username c));
          finalPassword = (case stored of None \<Rightarrow> rq_password body | Some c \<Rightarrow> Some (password c));
          finalPort = (case stored of None \<Rightarrow> rq_port body | Some c \<Rightarrow> or_num (port c) (rq_port body))
      in if \<not> truthy_str (rq_host body) \<or> \<not> truthy_str finalUsername \<or> \<not> truthy_str finalPassword
         then (Inl (400, FieldsRequired), lookups)
         else (Inr \<lparr>s_host = str_of (rq_host body), s_port = or_default finalPort None 22,
                    s_username = str_of finalUsername, s_password = str_of finalPassword\<rparr>,
               lookups))"

text \<open>
  \<open>app.post('/api/fs/sftp/upload')\<close> up to \<open>connectSFTP\<close>, for a request that may or may
  not carry a file.
\<close>

definition sftp_upload_session ::
  "(string \<rightharpoonup> credentials) \<Rightarrow> string \<Rightarrow> bool \<Rightarrow> request_body \<Rightarrow> (response + session) \<times> string list" where
  "sftp_upload_session store userId has_file body =
     (if \<not> has_file then (Inl (400, NoFileSent), [])
      else
        (let (stored, lookups) = consult_store_upload store userId body;
             finalUsername = map_option username stored;
             finalPassword = map_option password stored;
             finalPort = (case stored of None \<Rightarrow> None
                          | Some c \<Rightarrow> Some (or_default (port c) (rq_port body) 22))
         in if \<not> truthy_str (rq_host body) \<or> \<not> truthy_str finalUsername \<or> \<not> truthy_str finalPassword
            then (Inl (400, CredentialsNotFound), lookups)
            else (Inr \<lparr>s_host = str_of (rq_host body), s_port = or_default finalPort None 22,
                       s_username = str_of finalUsername, s_password = str_of finalPassword\<rparr>,
                  lookups)))"

subsection \<open>The credentials every handler opens its session with\<close>

text \<open>
  The handlers of the four backends that open a transport session: SFTP (\<open>connectSFTP\<close>
  or \<open>client.connect\<close>), FTP (\<open>client.access\<close>), S3 (\<open>createS3Client\<close>) and SMB
  (\<open>createSMBClient\<close>). The handlers of the local file system and of NFS mounts open no
  session and take no credentials.
\<close>

datatype handler =
    Sftp_list | Sftp_download | Sftp_mkdir | Sftp_delete | Sftp_rename | Sftp_copy | Sftp_quota
  | Sftp_upload
  | Ftp_list | Ftp_download | Ftp_upload | Ftp_mkdir | Ftp_delete | Ftp_rename
  | S3_list | S3_download | S3_upload | S3_mkdir | S3_delete | S3_rename | S3_copy
  | Smb_list | Smb_download | Smb_upload | Smb_mkdir | Smb_delete | Smb_rename

text \<open>The handlers behind \<open>upload.single('file')\<close>: they first require \<open>req.file\<close>.\<close>

definition takes_file :: "handler \<Rightarrow> bool" where
  "takes_file h = (h \<in> {Sftp_upload, Ftp_upload, S3_upload, Smb_upload})"

text \<open>
  The handlers that destructure \<open>username\<close> and \<open>password\<close> from the body: all but the
  upload handlers of SFTP, FTP and SMB.
\<close>

definition reads_credentials :: "handler \<Rightarrow> bool" where
  "reads_credentials h = (h \<notin> {Sftp_upload, Ftp_upload, Smb_upload})"

text \<open>
  The SMB handlers split \<open>host\<close> into server and share at the first \<open>/\<close>; the list
  handler also accepts a backslash:
  \<open>parts = host.split('/'); smbHost = parts[0]; share = parts[1] || ''\<close>.
\<close>

definition split_host :: "char \<Rightarrow> string \<Rightarrow> string \<times> string" where
  "split_host c host =
     (case split_on c host of
        a # b # rest \<Rightarrow> (a, b)
      | [a] \<Rightarrow> (a, [])
      | [] \<Rightarrow> ([], []))"

definition smb_host_share :: "bool \<Rightarrow> string \<Rightarrow> string \<times> string" where
  "smb_host_share backslash_too host =
     (if includes_str host ''/'' then split_host (CHR ''/'') host
      else if backslash_too \<and> includes_str host [CHR 0x5C] then split_host (CHR 0x5C) host
      else (host, []))"

text \<open>
  What each handler requires besides credentials, as its \<open>if (!host || ...)\<close> has it: true
  when a required field is missing.
\<close>

fun other_fields_missing :: "handler \<Rightarrow> request_body \<Rightarrow> bool" where
  "other_fields_missing Sftp_list b = (\<not> truthy_str (rq_host b))"
| "other_fields_missing Sftp_download b = (\<not> truthy_str (rq_host b) \<or> \<not> truthy_str (rq_path b))"
| "other_fields_missing Sftp_mkdir b = (\<not> truthy_str (rq_host b) \<or> \<not> truthy_str (rq_path b))"
| "other_fields_missing Sftp_delete b = (\<not> truthy_str (rq_host b) \<or> \<not> truthy_str (rq_path b))"
| "other_fields_missing Sftp_rename b =
     (\<not> truthy_str (rq_host b) \<or> \<not> truthy_str (rq_oldPath b) \<or> \<not> truthy_str (rq_newPath b))"
| "other_fields_missing Sftp_copy b =
     (\<not> truthy_str (rq_host b) \<or> \<not> truthy_str (rq_srcPath b) \<or> \<not> truthy_str (rq_dstPath b))"
| "other_fields_missing Sftp_quota b = (\<not> truthy_str (rq_host b))"
| "other_fields_missing Sftp_upload b = (\<not> truthy_str (rq_host b))"
| "other_fields_missing Ftp_list b = (\<not> truthy_str (rq_host b))"
| "other_fields_missing Ftp_download b = (\<not> truthy_str (rq_host b) \<or> \<not> truthy_str (rq_path b))"
| "other_fields_missing Ftp_upload b = (\<not> truthy_str (rq_host b))"
| "other_fields_missing Ftp_mkdir b = (\<not> truthy_str (rq_host b) \<or> \<not> truthy_str (rq_path b))"
| "other_fields_missing Ftp_delete b = (\<not> truthy_str (rq_host b) \<or> \<not> truthy_str (rq_path b))"
| "other_fields_missing Ftp_rename b =
     (\<not> truthy_str (rq_host b) \<or> \<not> truthy_str (rq_oldPath b) \<or> \<not> truthy_str (rq_newPath b))"
| "other_fields_missing S3_list b = False"
| "other_fields_missing S3_download b = (\<not> truthy_str (rq_bucket b) \<or> \<not> truthy_str (rq_key b))"
| "other_fields_missing S3_upload b = (\<not> truthy_str (rq_bucket b))"
| "other_fields_missing S3_mkdir b = (\<not> truthy_str (rq_bucket b) \<or> \<not> truthy_str (rq_path b))"
| "other_fields_missing S3_delete b = (\<not> truthy_str (rq_bucket b) \<or> rq_keys b = None)"
| "other_fields_missing S3_rename b =
     (\<not> truthy_str (rq_bucket b) \<or> \<not> truthy_str (rq_oldKey b) \<or> \<not> truthy_str (rq_newKey b))"
| "other_fields_missing S3_copy b =
     (\<not> truthy_str (rq_bucket b) \<or> \<not> truthy_str (rq_srcKey b) \<or> \<not> truthy_str (rq_dstKey b))"
| "other_fields_missing Smb_list b =
     (\<not> truthy_str (rq_host b) \<or> snd (smb_host_share True (str_of (rq_host b))) = [])"
| "other_fields_missing Smb_download b =
     (fst (smb_host_share False (str_of (rq_host b))) = []
      \<or> snd (smb_host_share False (str_of (rq_host b))) = [] \<or> \<not> truthy_str (rq_path b))"
| "other_fields_missing Smb_upload b =
     (fst (smb_host_share False (str_of (rq_host b))) = []
      \<or> snd (smb_host_share False (str_of (rq_host b))) = [])"
| "other_fields_missing Smb_mkdir b =
     (fst (smb_host_share False (str_of (rq_host b))) = []
      \<or> snd (smb_host_share False (str_of (rq_host b))) = [] \<or> \<not> truthy_str (rq_path b))"
| "other_fields_missing Smb_delete b =
     (fst (smb_host_share False (str_of (rq_host b))) = []
      \<or> snd (smb_host_share False (str_of (rq_host b))) = [] \<or> \<not> truthy_str (rq_path b))"
| "other_fields_missing Smb_rename b =
     (fst (smb_host_share False (str_of (rq_host b))) = []
      \<or> snd (smb_host_share False (str_of (rq_host b))) = []
      \<or> \<not> truthy_str (rq_oldPath b) \<or> \<not> truthy_str (rq_newPath b))"

text \<open>The 400 answer of a handler whose required fields are not all there.\<close>

definition refusal :: "handler \<Rightarrow> response" where
  "refusal h =
     (400, if h \<in> {Sftp_mkdir, Sftp_quota, Sftp_upload, Ftp_upload, Smb_upload}
           then CredentialsNotFound else FieldsRequired)"

text \<open>\<open>x || d\<close> on strings.\<close>

definition or_str :: "string option \<Rightarrow> string \<Rightarrow> string" where
  "or_str x d = (if truthy_str x then str_of x else d)"

text \<open>
  A handler up to the opening of its session: the 400 answer, or the user name and the
  password the session is opened with (for S3 the access key and the secret), and the
  store lookups made. The upload handlers first require the file. The FTP list handler
  checks the host before it consults the store, requires no credentials and logs in
  anonymously without them; every other handler consults the store first and then
  requires its fields and both credentials.
\<close>

definition handler_credentials ::
  "handler \<Rightarrow> (string \<rightharpoonup> credentials) \<Rightarrow> string \<Rightarrow> bool \<Rightarrow> request_body
     \<Rightarrow> (response + string \<times> string) \<times> string list" where
  "handler_credentials h store userId has_file body =
     (if takes_file h \<and> \<not> has_file then (Inl (400, NoFileSent), [])
      else if h = Ftp_list \<and> other_fields_missing h body then (Inl (refusal h), [])
      else
        (let (stored, lookups) =
               (if reads_credentials h then consult_store store userId body
                else consult_store_upload store userId body);
             finalUsername =
               (case stored of
                  None \<Rightarrow> if reads_credentials h then rq_username body else None
                | Some c \<Rightarrow> Some (username c));
             finalPassword =
               (case stored of
                  None \<Rightarrow> if reads_credentials h then rq_password body else None
                | Some c \<Rightarrow> Some (password c))
         in if h = Ftp_list
            then (Inr (or_str finalUsername ''anonymous'', or_str finalPassword ''anonymous@''),
                  lookups)
            else if other_fields_missing h body
                    \<or> \<not> truthy_str finalUsername \<or> \<not> truthy_str finalPassword
            then (Inl (refusal h), lookups)
            else (Inr (str_of finalUsername, str_of finalPassword), lookups)))"

text \<open>The login an operation of the transfer endpoint was started with.\<close>

fun login_in :: "event \<Rightarrow> login" where
  "login_in (Get ep lg a) = lg"
| "login_in (Put ep lg a) = lg"
| "login_in (Del ep lg a) = lg"
| "login_in (Copy ep lg a b) = lg"

subsection \<open>Rename on S3\<close>

text \<open>The access key and secret the S3 client is created with.\<close>

definition s3_login :: "(string \<rightharpoonup> credentials) \<Rightarrow> string \<Rightarrow> request_body \<Rightarrow> login" where
  "s3_login store userId body =
     (case fst (consult_store store userId body) of
        None \<Rightarrow> (rq_username body, rq_password body)
      | Some c \<Rightarrow> (Some (username c), Some (password c)))"

definition s3_bucket_of :: "request_body \<Rightarrow> endpoint" where
  "s3_bucket_of body =
     S3Bucket (s3_client_endpoint (str_of (rq_host body))) (s3_client_region (str_of (rq_region body)))
       (str_of (rq_bucket body))"

text \<open>The fields the rename handler requires: credentials, bucket and both keys.\<close>

definition s3_rename_fields_present ::
  "(string \<rightharpoonup> credentials) \<Rightarrow> string \<Rightarrow> request_body \<Rightarrow> bool" where
  "s3_rename_fields_present store userId body =
     (\<not> (\<not> truthy_str (fst (s3_login store userId body))
         \<or> \<not> truthy_str (snd (s3_login store userId body))
         \<or> \<not> truthy_str (rq_bucket body)
         \<or> \<not> truthy_str (rq_oldKey body) \<or> \<not> truthy_str (rq_newKey body)))"

text \<open>
  \<open>app.post('/api/fs/s3/rename')\<close>: copy to the new key, then delete the old object, both
  inside one \<open>try\<close>.
\<close>

definition s3_rename ::
  "(string \<rightharpoonup> credentials) \<Rightarrow> string \<Rightarrow> outcome \<Rightarrow> outcome \<Rightarrow> request_body \<Rightarrow> world
     \<Rightarrow> response \<times> world \<times> event list" where
  "s3_rename store userId copy_oc delete_oc body w =
     (let lg = s3_login store userId body
      in if \<not> s3_rename_fields_present store userId body
         then ((400, FieldsRequired), w, [])
         else
           (case and_then
                   (copy_object (s3_bucket_of body) lg (str_of (rq_oldKey body))
                      (str_of (rq_newKey body)) copy_oc w)
                   (delete_at (s3_bucket_of body) lg (str_of (rq_oldKey body)) delete_oc) of
              (Inr u, w', tr) \<Rightarrow> ((200, FileRenamed), w', tr)
            | (Inl err, w', tr) \<Rightarrow> ((500, ErrorMessage err), w', tr)))"

subsection \<open>Directory listings\<close>

datatype item_type = File | Folder

record file_item =
  fi_name :: string
  fi_type :: item_type
  fi_size :: nat
  fi_path :: string

text \<open>What \<open>sftp.readdir\<close> yields for one entry.\<close>

record sftp_dirent =
  filename :: string
  longname :: string
  attrs_size :: nat

text \<open>What \<open>fs.statSync\<close> yields.\<close>

record stats =
  isDirectory :: bool
  st_size :: nat

text \<open>\<open>name.startsWith('.')\<close>\<close>

definition starts_with_dot :: "string \<Rightarrow> bool" where
  "starts_with_dot s = (case s of [] \<Rightarrow> False | c # cs \<Rightarrow> c = CHR ''.'')"

text \<open>
  The comparator every sorting handler passes to \<open>sort\<close>; \<open>localeCompare\<close> is a parameter
  (the collation is the runtime's, not the server's).
\<close>

definition compare_items :: "(string \<Rightarrow> string \<Rightarrow> int) \<Rightarrow> file_item \<Rightarrow> file_item \<Rightarrow> int" where
  "compare_items localeCompare a b =
     (if fi_type a = Folder \<and> fi_type b \<noteq> Folder then - 1
      else if fi_type a \<noteq> Folder \<and> fi_type b = Folder then 1
      else localeCompare (fi_name a) (fi_name b))"

text \<open>
  \<open>Array.prototype.sort\<close> with a comparator is a stable sort: elements the comparator does
  not separate keep their order. Inserting from the right, each element before the first
  one it does not follow, computes that arrangement.
\<close>

fun insert_sorted :: "('a \<Rightarrow> 'a \<Rightarrow> int) \<Rightarrow> 'a \<Rightarrow> 'a list \<Rightarrow> 'a list" where
  "insert_sorted cmp x [] = [x]"
| "insert_sorted cmp x (y # ys) =
     (if cmp x y \<le> 0 then x # y # ys else y # insert_sorted cmp x ys)"

definition js_sort :: "('a \<Rightarrow> 'a \<Rightarrow> int) \<Rightarrow> 'a list \<Rightarrow> 'a list" where
  "js_sort cmp xs = foldr (insert_sorted cmp) xs []"

definition sftp_file_item :: "string \<Rightarrow> sftp_dirent \<Rightarrow> file_item" where
  "sftp_file_item targetPath item =
     \<lparr>fi_name = filename item,
      fi_type = (if take 1 (longname item) = ''d'' then Folder else File),
      fi_size = attrs_size item,
      fi_path = targetPath\<rparr>"

text \<open>
  The statement the SFTP, FTP, SMB and NFS list handlers end with: drop the names that
  start with a dot, then sort.
\<close>

definition filter_and_sort :: "(string \<Rightarrow> string \<Rightarrow> int) \<Rightarrow> file_item list \<Rightarrow> file_item list" where
  "filter_and_sort localeCompare files =
     js_sort (compare_items localeCompare) (filter (\<lambda>f. \<not> starts_with_dot (fi_name f)) files)"

text \<open>\<open>app.post('/api/fs/sftp/list')\<close>: the array sent for what \<open>readdir\<close> returned.\<close>

definition sftp_list :: "(string \<Rightarrow> string \<Rightarrow> int) \<Rightarrow> string \<Rightarrow> sftp_dirent list \<Rightarrow> file_item list" where
  "sftp_list localeCompare targetPath list =
     filter_and_sort localeCompare (map (sftp_file_item targetPath) list)"

text \<open>
  \<open>app.post('/api/fs/ftp/list')\<close>: an entry of \<open>client.list\<close> is read for its name, its
  \<open>isDirectory\<close> flag and its size.
\<close>

definition ftp_file_item :: "string \<Rightarrow> string \<times> bool \<times> nat \<Rightarrow> file_item" where
  "ftp_file_item targetPath item =
     \<lparr>fi_name = fst item,
      fi_type = (if fst (snd item) then Folder else File),
      fi_size = snd (snd item),
      fi_path = targetPath\<rparr>"

definition ftp_list ::
  "(string \<Rightarrow> string \<Rightarrow> int) \<Rightarrow> string \<Rightarrow> (string \<times> bool \<times> nat) list \<Rightarrow> file_item list" where
  "ftp_list localeCompare targetPath list =
     filter_and_sort localeCompare (map (ftp_file_item targetPath) list)"

text \<open>
  \<open>app.post('/api/fs/smb/list')\<close>: each name \<open>readdir\<close> returned with its \<open>stat\<close>; a name
  whose \<open>stat\<close> failed is taken for a file of size 0.
\<close>

definition smb_file_item :: "string \<Rightarrow> string \<times> stats option \<Rightarrow> file_item" where
  "smb_file_item targetPath e =
     \<lparr>fi_name = fst e,
      fi_type = (case snd e of None \<Rightarrow> File | Some st \<Rightarrow> if isDirectory st then Folder else File),
      fi_size = (case snd e of None \<Rightarrow> 0 | Some st \<Rightarrow> st_size st),
      fi_path = (if targetPath = [] then ''/'' else targetPath)\<rparr>"

definition smb_list ::
  "(string \<Rightarrow> string \<Rightarrow> int) \<Rightarrow> string \<Rightarrow> (string \<times> stats option) list \<Rightarrow> file_item list" where
  "smb_list localeCompare targetPath list =
     filter_and_sort localeCompare (map (smb_file_item targetPath) list)"

text \<open>
  \<open>app.post('/api/fs/nfs/list')\<close> on a mounted export: the names \<open>readdirSync\<close> returned whose
  \<open>statSync\<close> did not throw.
\<close>

definition nfs_file_item :: "string \<Rightarrow> string \<times> stats option \<Rightarrow> file_item option" where
  "nfs_file_item nfsPath e =
     (case snd e of
        None \<Rightarrow> None
      | Some st \<Rightarrow>
          Some \<lparr>fi_name = fst e,
                fi_type = (if isDirectory st then Folder else File),
                fi_size = st_size st,
                fi_path = (if nfsPath = [] then ''/'' else nfsPath)\<rparr>)"

definition nfs_list ::
  "(string \<Rightarrow> string \<Rightarrow> int) \<Rightarrow> string \<Rightarrow> (string \<times> stats option) list \<Rightarrow> file_item list" where
  "nfs_list localeCompare nfsPath names =
     filter_and_sort localeCompare (List.map_filter (nfs_file_item nfsPath) names)"

text \<open>
  \<open>app.post('/api/rclone/list')\<close>, the listing of a cloud drive: an entry is read for its
  \<open>Name\<close>, \<open>IsDir\<close> and \<open>Size\<close>; the array is sorted and not filtered.
\<close>

definition rclone_file_item :: "string \<Rightarrow> string \<times> bool \<times> nat \<Rightarrow> file_item" where
  "rclone_file_item remotePath item =
     \<lparr>fi_name = fst item,
      fi_type = (if fst (snd item) then Folder else File),
      fi_size = snd (snd item),
      fi_path = (if remotePath = [] then ''/'' else remotePath)\<rparr>"

definition rclone_list ::
  "(string \<Rightarrow> string \<Rightarrow> int) \<Rightarrow> string \<Rightarrow> (string \<times> bool \<times> nat) list \<Rightarrow> file_item list" where
  "rclone_list localeCompare remotePath list =
     js_sort (compare_items localeCompare) (map (rclone_file_item remotePath) list)"

text \<open>
  What the listing claim asks of a listing: folders before files and, in each group,
  names in the order of the comparison; and no name that starts with a dot.
\<close>

definition folders_first_by_name :: "(string \<Rightarrow> string \<Rightarrow> int) \<Rightarrow> file_item list \<Rightarrow> bool" where
  "folders_first_by_name localeCompare out =
     sorted_wrt (\<lambda>a b. (fi_type a = Folder \<or> fi_type b = File)
                      \<and> (fi_type a = fi_type b \<longrightarrow> localeCompare (fi_name a) (fi_name b) \<le> 0)) out"

definition no_dot_names :: "file_item list \<Rightarrow> bool" where
  "no_dot_names out = list_all (\<lambda>f. \<not> starts_with_dot (fi_name f)) out"

text \<open>
  \<open>app.get('/api/fs/list')\<close>, the local listing: one item per name \<open>readdirSync\<close> returned
  whose \<open>statSync\<close> did not throw, in that order.
\<close>

definition local_file_item :: "string \<Rightarrow> string \<times> stats option \<Rightarrow> file_item option" where
  "local_file_item targetPath e =
     (case snd e of
        None \<Rightarrow> None
      | Some st \<Rightarrow>
          Some \<lparr>fi_name = fst e,
                fi_type = (if isDirectory st then Folder else File),
                fi_size = st_size st,
                fi_path = path_join targetPath (fst e)\<rparr>)"

definition local_list :: "string \<Rightarrow> (string \<times> stats option) list \<Rightarrow> file_item list" where
  "local_list targetPath names = List.map_filter (local_file_item targetPath) names"

text \<open>
  A comparison of strings by character code, one of the comparisons \<open>localeCompare\<close> may
  be: negative, zero or positive as the first string is before, equal to or after the
  second.
\<close>

definition char_code :: "char \<Rightarrow> nat" where
  "char_code c = of_char c"

fun compare_codes :: "string \<Rightarrow> string \<Rightarrow> int" where
  "compare_codes [] [] = 0"
| "compare_codes [] (y # ys) = - 1"
| "compare_codes (x # xs) [] = 1"
| "compare_codes (x # xs) (y # ys) =
     (if char_code x < char_code y then - 1
      else if char_code y < char_code x then 1
      else compare_codes xs ys)"

subsection \<open>Concrete requests\<close>

text \<open>
  The spec's scenario D: a bucket holding \<open>old.txt\<close>, and a rename to \<open>new.txt\<close> with
  explicit credentials.
\<close>

definition rename_request :: request_body where
  "rename_request =
     \<lparr>rq_host = Some ''s3.example'', rq_port = None, rq_username = Some ''AKIA'',
      rq_password = Some ''pw-b'', rq_path = None, rq_connectionId = None,
      rq_bucket = Some ''backup'', rq_oldKey = Some ''old.txt'', rq_newKey = Some ''new.txt'',
      rq_region = None, rq_remotePath = None, rq_oldPath = None, rq_newPath = None,
      rq_srcPath = None, rq_dstPath = None, rq_key = None, rq_keys = None, rq_srcKey = None,
      rq_dstKey = None\<rparr>"

definition worldD :: world where
  "worldD = \<lparr>locate = Pair,
             file_at = [(S3Bucket (Some ''https://s3.example'') ''us-east-1'' ''backup'', ''old.txt'')
                        \<mapsto> ''data''],
             disk = Map.empty\<rparr>"

text \<open>
  A request to server A that carries credentials of its own (\<open>carol\<close>) and the id of the
  connection whose stored credentials are \<open>alice\<close>'s.
\<close>

definition carol_request :: request_body where
  "carol_request =
     \<lparr>rq_host = Some ''a.example'', rq_port = None, rq_username = Some ''carol'',
      rq_password = Some ''pw-c'', rq_path = Some ''/docs'', rq_connectionId = Some ''A'',
      rq_bucket = None, rq_oldKey = None, rq_newKey = None,
      rq_region = None, rq_remotePath = Some ''/docs'', rq_oldPath = None,
      rq_newPath = None, rq_srcPath = None, rq_dstPath = None, rq_key = None, rq_keys = None,
      rq_srcKey = None, rq_dstKey = None\<rparr>"

text \<open>
  The spec's scenario C as \<open>readdir\<close> results: a file \<open>zeta.txt\<close>, a folder \<open>Alpha\<close> and a
  file \<open>.hidden\<close>, in that order.
\<close>

definition scenario_dirents :: "sftp_dirent list" where
  "scenario_dirents =
     [\<lparr>filename = ''zeta.txt'', longname = ''-rw-r--r-- 1 user user 12 zeta.txt'', attrs_size = 12\<rparr>,
      \<lparr>filename = ''Alpha'', longname = ''drwxr-xr-x 2 user user 4096 Alpha'', attrs_size = 4096\<rparr>,
      \<lparr>filename = ''.hidden'', longname = ''-rw-r--r-- 1 user user 3 .hidden'', attrs_size = 3\<rparr>]"

definition scenario_entries :: "(string \<times> bool \<times> nat) list" where
  "scenario_entries = [(''zeta.txt'', False, 12), (''Alpha'', True, 0), (''.hidden'', False, 3)]"

definition scenario_names :: "(string \<times> stats option) list" where
  "scenario_names =
     [(''zeta.txt'', Some \<lparr>isDirectory = False, st_size = 12\<rparr>),
      (''Alpha'', Some \<lparr>isDirectory = True, st_size = 4096\<rparr>),
      (''.hidden'', Some \<lparr>isDirectory = False, st_size = 3\<rparr>)]"

text \<open>A request to server A that carries the connection id and no credentials.\<close>

definition stored_request :: request_body where
  "stored_request =
     \<lparr>rq_host = Some ''a.example'', rq_port = None, rq_username = None,
      rq_password = None, rq_path = Some ''/docs'', rq_connectionId = Some ''A'',
      rq_bucket = None, rq_oldKey = None, rq_newKey = None,
      rq_region = None, rq_remotePath = Some ''/docs'', rq_oldPath = None,
      rq_newPath = None, rq_srcPath = None, rq_dstPath = None, rq_key = None, rq_keys = None,
      rq_srcKey = None, rq_dstKey = None\<rparr>"

text \<open>
  An upload to the share \<open>docs\<close> of server C that carries \<open>carol\<close>'s credentials and the
  id of the connection whose stored credentials are \<open>alice\<close>'s.
\<close>

definition share_request :: request_body where
  "share_request =
     \<lparr>rq_host = Some ''c.example/docs'', rq_port = None, rq_username = Some ''carol'',
      rq_password = Some ''pw-c'', rq_path = None, rq_connectionId = Some ''A'',
      rq_bucket = None, rq_oldKey = None, rq_newKey = None,
      rq_region = None, rq_remotePath = Some ''reports'', rq_oldPath = None,
      rq_newPath = None, rq_srcPath = None, rq_dstPath = None, rq_key = None, rq_keys = None,
      rq_srcKey = None, rq_dstKey = None\<rparr>"

section \<open>The file explorer's confirm action\<close>

datatype ConnectionType = SFTP | FTP | S3 | GDRIVE | DROPBOX | ONEDRIVE | SMB | NFS | LOCAL

definition isCloudProvider :: "ConnectionType \<Rightarrow> bool" where
  "isCloudProvider t = (t = GDRIVE \<or> t = DROPBOX \<or> t = ONEDRIVE)"

datatype action = MoveAction | CopyAction

datatype conflict_choice = Replace | Rename

record ui_connection =
  ui_id :: string
  ui_type :: ConnectionType

record ui_file =
  uf_name :: string
  uf_type :: item_type

text \<open>The component state \<open>handleConfirmAction\<close> reads.\<close>

record explorer =
  targetActionFile :: "ui_file option"
  destConnection :: "ui_connection option"
  activeConnection :: "ui_connection option"
  actionType :: "action option"
  conflictAction :: "conflict_choice option"
  conflictRenameValue :: string
  destFiles :: "ui_file list"

text \<open>The requests the browser sends, by URL.\<close>

datatype api_call =
    RcloneMove | RcloneCopy
  | SftpRename | SftpCopy
  | FtpRename
  | S3Rename | S3Copy
  | FsTransfer
  | ListFiles

datatype ui_error =
    FtpCopyNotSupported
  | RequestFailed

datatype confirm_result =
    Ignored
  | ConflictModalShown
  | TransferFailed ui_error
  | TransferCompleted

text \<open>
  The branch of the \<open>try\<close> block that picks the request: the URL fetched, or the error
  thrown before any fetch.
\<close>

definition choose_request :: "ConnectionType \<Rightarrow> bool \<Rightarrow> bool \<Rightarrow> ui_error + api_call" where
  "choose_request srcType isSameConnection move =
     (if isCloudProvider srcType then Inr (if move then RcloneMove else RcloneCopy)
      else if srcType = SFTP \<and> isSameConnection then Inr (if move then SftpRename else SftpCopy)
      else if srcType = FTP \<and> isSameConnection then
        (if \<not> move then Inl FtpCopyNotSupported else Inr FtpRename)
      else if srcType = S3 \<and> isSameConnection then Inr (if move then S3Rename else S3Copy)
      else Inr FsTransfer)"

text \<open>
  \<open>handleConfirmAction\<close>: what the transfer ends as and the requests sent, given whether
  the server answers the request with an ok status and whether the listing fetched
  again after an ok answer succeeds.
\<close>

definition handleConfirmAction ::
  "bool \<Rightarrow> bool \<Rightarrow> explorer \<Rightarrow> confirm_result \<times> api_call list" where
  "handleConfirmAction response_ok refresh_ok st =
     (case (targetActionFile st, destConnection st, activeConnection st) of
        (Some file, Some dst, Some src) \<Rightarrow>
          (let move = (actionType st = Some MoveAction);
               isSameConnection = (ui_id dst = ui_id src);
               fileNameToCheck =
                 (if conflictAction st = Some Rename then conflictRenameValue st else uf_name file);
               existsInDest =
                 list_ex (\<lambda>f. toLowerCase (uf_name f) = toLowerCase fileNameToCheck
                              \<and> uf_type f = uf_type file) (destFiles st)
           in if existsInDest \<and> conflictAction st = None then (ConflictModalShown, [])
              else
                (case choose_request (ui_type src) isSameConnection move of
                   Inl err \<Rightarrow> (TransferFailed err, [])
                 | Inr url \<Rightarrow>
                     if \<not> response_ok then (TransferFailed RequestFailed, [url])
                     else if refresh_ok then (TransferCompleted, [url, ListFiles])
                     else (TransferFailed RequestFailed, [url, ListFiles])))
      | _ \<Rightarrow> (Ignored, []))"

section \<open>Transfer progress shown to the user\<close>

text \<open>
  A transfer record's progress is a JavaScript number; here a real number, so rounding
  of the floating-point sums is not part of the model. \<open>Math.random()\<close> is a parameter
  of each timer tick: a number in the interval from 0 (included) to 1 (excluded).
\<close>

record progress_state =
  progress :: real
  currentProgress :: real

text \<open>
  What can happen to the record of one transfer after \<open>addTransfer\<close>: the first interval
  fires, the second interval fires, or the request returns and \<open>completeTransfer\<close> runs.
\<close>

datatype tick =
    FirstInterval real
  | SecondInterval real
  | Complete

definition initial_progress :: progress_state where
  "initial_progress = \<lparr>progress = 0, currentProgress = 0\<rparr>"

text \<open>\<open>updateTransferProgress(transferId, Math.min(95, Math.random() * 15 + 5))\<close>\<close>

definition first_interval :: "real \<Rightarrow> progress_state \<Rightarrow> progress_state" where
  "first_interval r st = st\<lparr>progress := min 95 (r * 15 + 5)\<rparr>"

text \<open>The second interval, which accumulates in the local \<open>currentProgress\<close>.\<close>

definition second_interval :: "real \<Rightarrow> progress_state \<Rightarrow> progress_state" where
  "second_interval r st =
     (if currentProgress st \<ge> 95 then st
      else (let c = min (currentProgress st + (r * 15 + 5)) 95
            in st\<lparr>progress := c, currentProgress := c\<rparr>))"

text \<open>\<open>completeTransfer\<close> sets the progress to 100.\<close>

definition completeTransfer :: "progress_state \<Rightarrow> progress_state" where
  "completeTransfer st = st\<lparr>progress := 100\<rparr>"

definition on_tick :: "tick \<Rightarrow> progress_state \<Rightarrow> progress_state" where
  "on_tick t st =
     (case t of
        FirstInterval r \<Rightarrow> first_interval r st
      | SecondInterval r \<Rightarrow> second_interval r st
      | Complete \<Rightarrow> completeTransfer st)"

text \<open>The progress values the record shows, one after each tick.\<close>

fun shown :: "progress_state \<Rightarrow> tick list \<Rightarrow> real list" where
  "shown st [] = []"
| "shown st (t # ts) = progress (on_tick t st) # shown (on_tick t st) ts"

text \<open>A tick list is well formed when every random number is one \<open>Math.random\<close> can return.\<close>

fun random_ok :: "tick \<Rightarrow> bool" where
  "random_ok (FirstInterval r) = (0 \<le> r \<and> r < 1)"
| "random_ok (SecondInterval r) = (0 \<le> r \<and> r < 1)"
| "random_ok Complete = True"

subsection \<open>Concrete data\<close>

text \<open>An explorer about to copy \<open>notes.txt\<close> inside one FTP connection.\<close>

definition ftp_copy_state :: explorer where
  "ftp_copy_state =
     \<lparr>targetActionFile = Some \<lparr>uf_name = ''notes.txt'', uf_type = File\<rparr>,
      destConnection = Some \<lparr>ui_id = ''F'', ui_type = FTP\<rparr>,
      activeConnection = Some \<lparr>ui_id = ''F'', ui_type = FTP\<rparr>,
      actionType = Some CopyAction,
      conflictAction = None,
      conflictRenameValue = [],
      destFiles = []\<rparr>"

text \<open>
  Both intervals have a period of 500 ms and the first was started first, so they fire in
  turn. In \<open>long_transfer\<close> the request is still pending after nine rounds and each call
  of \<open>Math.random\<close> returns one half. In \<open>short_transfer\<close> the request returns after one
  round, and the first interval, whose handle was overwritten by that of the second and
  is never cleared, fires once more before the record is removed.
\<close>

definition rounds :: "nat \<Rightarrow> real \<Rightarrow> tick list" where
  "rounds n r = concat (replicate n [FirstInterval r, SecondInterval r])"

definition long_transfer :: "tick list" where
  "long_transfer = rounds 9 (1/2)"

definition short_transfer :: "tick list" where
  "short_transfer = rounds 1 (1/2) @ [Complete, FirstInterval (1/2)]"

text \<open>A sequence of shown values never goes down.\<close>

fun nondecreasing :: "real list \<Rightarrow> bool" where
  "nondecreasing [] = True"
| "nondecreasing [x] = True"
| "nondecreasing (x # y # ys) = (x \<le> y \<and> nondecreasing (y # ys))"

text \<open>The same copy after the user chose to replace an existing \<open>notes.txt\<close>.\<close>

definition ftp_copy_replace_state :: explorer where
  "ftp_copy_replace_state =
     ftp_copy_state\<lparr>conflictAction := Some Replace,
                    destFiles := [\<lparr>uf_name = ''Notes.txt'', uf_type = File\<rparr>]\<rparr>"

section \<open>Staging paths\<close>

subsection \<open>Decimal digits\<close>

lemma digit_code: "d < 10 \<Longrightarrow> (of_char (digit_char d) :: nat) = 48 + d"
  by (simp add: digit_char_def)

lemma digit_not_underscore: "d < 10 \<Longrightarrow> digit_char d \<noteq> CHR ''_''"
proof
  assume a: "d < 10" and "digit_char d = CHR ''_''"
  then have "(of_char (digit_char d) :: nat) = of_char (CHR ''_'')" by simp
  with a show False by (simp add: digit_code)
qed

lemma digit_not_slash: "d < 10 \<Longrightarrow> digit_char d \<noteq> CHR ''/''"
proof
  assume a: "d < 10" and "digit_char d = CHR ''/''"
  then have "(of_char (digit_char d) :: nat) = of_char (CHR ''/'')" by simp
  with a show False by (simp add: digit_code)
qed

lemma string_of_nat_chars: "c \<in> set (string_of_nat n) \<Longrightarrow> \<exists>d < 10. c = digit_char d"
proof (induction n rule: string_of_nat.induct)
  case (1 n)
  show ?case
  proof (cases "n < 10")
    case True
    with "1.prems" show ?thesis by (auto simp: string_of_nat.simps[of n])
  next
    case False
    with "1.prems" have "c \<in> set (string_of_nat (n div 10)) \<or> c = digit_char (n mod 10)"
      by (auto simp: string_of_nat.simps[of n])
    then show ?thesis
    proof
      assume "c \<in> set (string_of_nat (n div 10))"
      with "1.IH" False show ?thesis by simp
    next
      assume "c = digit_char (n mod 10)"
      moreover have "n mod 10 < 10" by simp
      ultimately show ?thesis by blast
    qed
  qed
qed

lemma string_of_nat_no_underscore: "CHR ''_'' \<notin> set (string_of_nat n)"
proof
  assume "CHR ''_'' \<in> set (string_of_nat n)"
  from string_of_nat_chars[OF this] obtain d where "d < 10" and "CHR ''_'' = digit_char d"
    by auto
  then show False using digit_not_underscore[of d] by simp
qed

lemma string_of_nat_no_slash: "CHR ''/'' \<notin> set (string_of_nat n)"
proof
  assume "CHR ''/'' \<in> set (string_of_nat n)"
  from string_of_nat_chars[OF this] obtain d where "d < 10" and "CHR ''/'' = digit_char d"
    by auto
  then show False using digit_not_slash[of d] by simp
qed

lemma digits_value_string_of_nat: "digits_value (string_of_nat n) = n"
proof (induction n rule: string_of_nat.induct)
  case (1 n)
  show ?case
  proof (cases "n < 10")
    case True
    then show ?thesis
      by (simp add: string_of_nat.simps[of n] digits_value_def digit_code)
  next
    case False
    have m: "n mod 10 < 10" by simp
    have "digits_value (string_of_nat n) =
            10 * digits_value (string_of_nat (n div 10)) + (of_char (digit_char (n mod 10)) - 48)"
      using False by (simp add: string_of_nat.simps[of n] digits_value_def)
    also have "\<dots> = 10 * (n div 10) + n mod 10"
      using "1.IH" False by (simp add: digit_code[OF m])
    finally show ?thesis by simp
  qed
qed

lemma string_of_nat_inj: "string_of_nat m = string_of_nat n \<Longrightarrow> m = n"
  by (metis digits_value_string_of_nat)

lemma split_at_first:
  "c \<notin> set a \<Longrightarrow> c \<notin> set b \<Longrightarrow> a @ c # x = b @ c # y \<Longrightarrow> a = b \<and> x = y"
proof (induction a arbitrary: b)
  case Nil
  then show ?case by (cases b) auto
next
  case (Cons h t)
  then show ?case by (cases b) auto
qed

subsection \<open>Joining a directory and a last segment\<close>

lemma split_on_nonempty: "split_on c s \<noteq> []"
  by (induction s) (auto split: list.splits)

lemma split_on_no_sep: "c \<notin> set s \<Longrightarrow> split_on c s = [s]"
  by (induction s) auto

lemma split_on_append: "split_on c (a @ c # b) = split_on c a @ split_on c b"
proof (induction a)
  case Nil
  then show ?case by simp
next
  case (Cons x xs)
  obtain s ss where e: "split_on c xs = s # ss"
    using split_on_nonempty[of c xs] by (cases "split_on c xs") auto
  show ?case
    using Cons e by auto
qed

lemma normalizeString_append:
  "normalizeString b acc (xs @ ys) = normalizeString b (normalizeString b acc xs) ys"
  by (induction xs arbitrary: acc) auto

lemma normalizeString_last:
  "seg \<noteq> [] \<Longrightarrow> seg \<noteq> ''.'' \<Longrightarrow> seg \<noteq> ''..'' \<Longrightarrow>
     normalizeString b acc (xs @ [seg]) = normalizeString b acc xs @ [seg]"
  by (simp add: normalizeString_append)

lemma join_with_snoc:
  "join_with (ys @ [seg]) = (if ys = [] then seg else join_with ys @ ''/'' @ seg)"
  by (induction ys rule: join_with.induct) auto

lemma path_join_segment:
  assumes ne: "seg \<noteq> []" and ns: "CHR ''/'' \<notin> set seg"
    and nd: "seg \<noteq> ''.''" and ndd: "seg \<noteq> ''..''"
  shows "path_join d seg = join_prefix d @ seg"
proof (cases "d = []")
  case True
  have h: "hd seg \<noteq> CHR ''/''"
    using ne ns by (cases seg) auto
  have l: "last seg \<noteq> CHR ''/''"
    using ne ns by (cases seg rule: rev_cases) auto
  have n: "normalizeString True [] (split_on (CHR ''/'') seg) = [seg]"
    using ne nd ndd by (simp add: split_on_no_sep[OF ns])
  have "path_join [] seg = join_prefix [] @ seg"
    using ne h l n by (simp add: path_join_def normalize_path_def join_prefix_def Let_def)
  then show ?thesis using True by simp
next
  case False
  define p where "p = d @ ''/'' @ seg"
  define ab where "ab = (hd d = CHR ''/'')"
  define ys where "ys = normalizeString (\<not> ab) [] (split_on (CHR ''/'') d)"
  have pne: "p \<noteq> []" by (simp add: p_def)
  have hd: "(hd p = CHR ''/'') = ab" using False by (simp add: p_def ab_def)
  have l: "(last p = CHR ''/'') = False"
    unfolding p_def using ne ns by (cases seg rule: rev_cases) auto
  have sp: "split_on (CHR ''/'') p = split_on (CHR ''/'') d @ [seg]"
    unfolding p_def using split_on_append[of "CHR ''/''" d seg]
    by (simp add: split_on_no_sep[OF ns])
  have n: "normalizeString (\<not> ab) [] (split_on (CHR ''/'') p) = ys @ [seg]"
    unfolding sp ys_def by (rule normalizeString_last[OF ne nd ndd])
  have j: "join_with (ys @ [seg]) = (if ys = [] then [] else join_with ys @ ''/'') @ seg"
    by (simp add: join_with_snoc)
  have jne: "join_with (ys @ [seg]) \<noteq> []"
    using ne by (simp add: j)
  have np: "normalize_path p = (if ab then ''/'' else []) @ join_with (ys @ [seg])"
    unfolding normalize_path_def Let_def hd l n using pne jne by simp
  have jp: "join_prefix d = (if ab then ''/'' else []) @ (if ys = [] then [] else join_with ys @ ''/'')"
    using False unfolding join_prefix_def Let_def ab_def[symmetric] ys_def[symmetric] by simp
  have "path_join d seg = normalize_path p"
    using False ne by (simp add: path_join_def p_def)
  then show ?thesis
    by (simp only: np jp j append_assoc)
qed

lemma temp_segment:
  assumes "CHR ''/'' \<notin> set f"
  shows "tempFile d n f = join_prefix d @ ''temp_'' @ string_of_nat n @ ''_'' @ f"
proof -
  let ?seg = "''temp_'' @ string_of_nat n @ ''_'' @ f"
  have ns: "CHR ''/'' \<notin> set ?seg"
    using assms string_of_nat_no_slash[of n] by simp
  have "path_join d ?seg = join_prefix d @ ?seg"
    by (rule path_join_segment[OF _ ns]) simp_all
  then show ?thesis by (simp add: tempFile_def)
qed


section \<open>Properties of the transfer endpoint\<close>

subsection \<open>The three kinds of remote call\<close>

lemma remote_eqI: "locate w' = locate w \<Longrightarrow> file_at w' = file_at w \<Longrightarrow> remote w' = remote w"
  by (intro ext) (simp add: remote_def)

lemma download_to_locate: "locate (world_of (download_to ep lg a tmp oc w)) = locate w"
  by (simp add: download_to_def put_disk_def split: outcome.splits option.splits)

lemma download_to_file_at: "file_at (world_of (download_to ep lg a tmp oc w)) = file_at w"
  by (simp add: download_to_def put_disk_def split: outcome.splits option.splits)

lemma download_to_remote: "remote (world_of (download_to ep lg a tmp oc w)) = remote w"
  by (rule remote_eqI) (simp_all add: download_to_locate download_to_file_at)

lemma download_to_disk:
  "q \<noteq> tmp \<Longrightarrow> disk (world_of (download_to ep lg a tmp oc w)) q = disk w q"
  by (simp add: download_to_def put_disk_def split: outcome.splits option.splits)

lemma download_to_calls:
  "calls_of (download_to ep lg a tmp oc w) = [Get ep lg a]"
  by (simp add: download_to_def split: outcome.splits option.splits)

lemma download_to_ok:
  "result_of (download_to ep lg a tmp oc w) = Inr () \<longleftrightarrow> oc = Succeeds \<and> remote w ep a \<noteq> None"
  by (auto simp add: download_to_def split: outcome.splits option.splits)

lemma download_to_ok_disk:
  "result_of (download_to ep lg a tmp oc w) = Inr () \<Longrightarrow>
     disk (world_of (download_to ep lg a tmp oc w)) tmp = remote w ep a"
  by (auto simp add: download_to_def put_disk_def split: outcome.splits option.splits)

lemma upload_from_disk: "disk (world_of (upload_from ep lg tmp a oc w)) = disk w"
  by (simp add: upload_from_def put_remote_def split: outcome.splits option.splits)

lemma upload_from_locate: "locate (world_of (upload_from ep lg tmp a oc w)) = locate w"
  by (simp add: upload_from_def put_remote_def split: outcome.splits option.splits)

lemma upload_from_file_at:
  "p \<noteq> locate w ep a \<Longrightarrow> file_at (world_of (upload_from ep lg tmp a oc w)) p = file_at w p"
  by (simp add: upload_from_def put_remote_def split: outcome.splits option.splits)

lemma upload_from_remote:
  "locate w ep' a' \<noteq> locate w ep a \<Longrightarrow>
     remote (world_of (upload_from ep lg tmp a oc w)) ep' a' = remote w ep' a'"
  by (simp add: remote_def upload_from_locate upload_from_file_at)

lemma upload_from_ok:
  "result_of (upload_from ep lg tmp a oc w) = Inr () \<longleftrightarrow> oc = Succeeds \<and> disk w tmp \<noteq> None"
  by (auto simp add: upload_from_def split: outcome.splits option.splits)

lemma upload_from_ok_remote:
  "result_of (upload_from ep lg tmp a oc w) = Inr () \<Longrightarrow>
     remote (world_of (upload_from ep lg tmp a oc w)) ep a = disk w tmp"
  by (auto simp add: upload_from_def put_remote_def remote_def split: outcome.splits option.splits)

lemma upload_from_calls:
  "calls_of (upload_from ep lg tmp a oc w) = [Put ep lg a]"
  by (simp add: upload_from_def split: outcome.splits option.splits)

lemma delete_at_disk: "disk (world_of (delete_at ep lg a oc w)) = disk w"
  by (simp add: delete_at_def drop_remote_def split: outcome.splits)

lemma delete_at_locate: "locate (world_of (delete_at ep lg a oc w)) = locate w"
  by (simp add: delete_at_def drop_remote_def split: outcome.splits)

lemma delete_at_file_at:
  "p \<noteq> locate w ep a \<Longrightarrow> file_at (world_of (delete_at ep lg a oc w)) p = file_at w p"
  by (simp add: delete_at_def drop_remote_def split: outcome.splits)

lemma delete_at_remote:
  "locate w ep' a' \<noteq> locate w ep a \<Longrightarrow>
     remote (world_of (delete_at ep lg a oc w)) ep' a' = remote w ep' a'"
  by (simp add: remote_def delete_at_locate delete_at_file_at)

lemma delete_at_ok: "result_of (delete_at ep lg a oc w) = Inr () \<longleftrightarrow> oc = Succeeds"
  by (auto simp add: delete_at_def split: outcome.splits)

lemma delete_at_ok_remote:
  "result_of (delete_at ep lg a oc w) = Inr () \<Longrightarrow>
     remote (world_of (delete_at ep lg a oc w)) ep a = None"
  by (auto simp add: delete_at_def drop_remote_def remote_def split: outcome.splits)

lemma delete_at_failed:
  "result_of (delete_at ep lg a oc w) \<noteq> Inr () \<Longrightarrow> world_of (delete_at ep lg a oc w) = w"
  by (auto simp add: delete_at_def split: outcome.splits)

lemma delete_at_calls:
  "calls_of (delete_at ep lg a oc w) = [Del ep lg a]"
  by (simp add: delete_at_def split: outcome.splits)

lemma cleanup_disk: "disk (cleanup tmp w) tmp = None"
  by (simp add: cleanup_def)

lemma cleanup_disk_other: "q \<noteq> tmp \<Longrightarrow> disk (cleanup tmp w) q = disk w q"
  by (simp add: cleanup_def)

lemma cleanup_locate: "locate (cleanup tmp w) = locate w"
  by (simp add: cleanup_def)

lemma cleanup_file_at: "file_at (cleanup tmp w) = file_at w"
  by (simp add: cleanup_def)

lemma cleanup_remote: "remote (cleanup tmp w) = remote w"
  by (rule remote_eqI) (simp_all add: cleanup_locate cleanup_file_at)

subsection \<open>Sequencing\<close>

lemma and_then_result:
  "result_of (and_then s f) =
     (if result_of s = Inr () then result_of (f (world_of s)) else result_of s)"
  by (cases s) (auto simp: and_then_def split: sum.splits prod.splits)

lemma and_then_world:
  "world_of (and_then s f) =
     (if result_of s = Inr () then world_of (f (world_of s)) else world_of s)"
  by (cases s) (auto simp: and_then_def split: sum.splits prod.splits)

lemma and_then_calls:
  "calls_of (and_then s f) =
     (if result_of s = Inr () then calls_of s @ calls_of (f (world_of s)) else calls_of s)"
  by (cases s) (auto simp: and_then_def split: sum.splits prod.splits)

subsection \<open>The steps, by endpoint\<close>

lemma step1_endpoint:
  "step1 creds c p tmp oc w =
     (case endpoint_of creds c of
        None \<Rightarrow> (Inl (UnsupportedSource (conn_type c)), w, [])
      | Some ep \<Rightarrow> download_to ep (login_of creds)
                     (address_of c p) tmp oc w)"
  by (simp add: step1_def endpoint_of_def address_of_def Let_def)

lemma step2_endpoint:
  "step2 creds c tmp p oc w =
     (case endpoint_of creds c of
        None \<Rightarrow> (Inl (UnsupportedDest (conn_type c)), w, [])
      | Some ep \<Rightarrow> upload_from ep (login_of creds)
                     tmp (address_of c p) oc w)"
  by (simp add: step2_def endpoint_of_def address_of_def Let_def)

lemma step3_endpoint:
  "step3 move creds c p oc w =
     (if move then
        (case endpoint_of creds c of
           None \<Rightarrow> (Inr (), w, [])
         | Some ep \<Rightarrow> delete_at ep (login_of creds)
                        (address_of c p) oc w)
      else (Inr (), w, []))"
  by (simp add: step3_def endpoint_of_def address_of_def Let_def)

lemma step1_unsupported:
  "kind_of src \<notin> {''sftp'', ''ftp'', ''s3''} \<Longrightarrow>
     step1 c src p tmp oc w = (Inl (UnsupportedSource (conn_type src)), w, [])"
  by (simp add: step1_def Let_def)

lemma step2_unsupported:
  "kind_of dst \<notin> {''sftp'', ''ftp'', ''s3''} \<Longrightarrow>
     step2 c dst tmp p oc w = (Inl (UnsupportedDest (conn_type dst)), w, [])"
  by (simp add: step2_def Let_def)

lemma step1_remote: "remote (world_of (step1 c s p tmp oc w)) = remote w"
  by (simp add: step1_endpoint download_to_remote split: option.splits)

lemma step1_disk: "q \<noteq> tmp \<Longrightarrow> disk (world_of (step1 c s p tmp oc w)) q = disk w q"
  by (simp add: step1_endpoint download_to_disk split: option.splits)

lemma step1_no_put: "Put ep lg a \<notin> set (calls_of (step1 c src p tmp oc w))"
  by (simp add: step1_endpoint download_to_calls split: option.splits)

lemma step2_disk: "disk (world_of (step2 c d tmp p oc w)) = disk w"
  by (simp add: step2_endpoint upload_from_disk split: option.splits)

lemma step3_disk: "disk (world_of (step3 m c s p oc w)) = disk w"
  by (simp add: step3_endpoint delete_at_disk split: option.splits)

subsection \<open>The handler\<close>

lemma transfer_steps_disk:
  "q \<noteq> tmp \<Longrightarrow> disk (world_of (transfer_steps store userId tmp e req w)) q = disk w q"
  by (simp add: transfer_steps_def Let_def and_then_world and_then_result
      step1_disk step2_disk step3_disk)

lemma transfer_world:
  "\<not> isDir req \<Longrightarrow>
   world_of (transfer store userId dirname now e req w) =
     cleanup (tempFile dirname now (fileName req))
       (world_of (transfer_steps store userId (tempFile dirname now (fileName req)) e req w))"
  by (simp add: transfer_def Let_def split: prod.splits sum.splits)

lemma transfer_calls:
  "\<not> isDir req \<Longrightarrow>
   calls_of (transfer store userId dirname now e req w) =
     calls_of (transfer_steps store userId (tempFile dirname now (fileName req)) e req w)"
  by (simp add: transfer_def Let_def split: prod.splits sum.splits)

lemma transfer_response:
  "\<not> isDir req \<Longrightarrow>
   result_of (transfer store userId dirname now e req w) =
     (case result_of (transfer_steps store userId (tempFile dirname now (fileName req)) e req w) of
        Inr u \<Rightarrow> (200, if isMove req then FileMoved else FileCopied)
      | Inl err \<Rightarrow> (500, ErrorMessage err))"
  by (simp add: transfer_def Let_def split: prod.splits sum.splits)

subsection \<open>Facts about the scenario data\<close>

lemma creds_A:
  "getConnectionCredentials stored_u1 (conn_id serverA) ''u1'' =
     Some \<lparr>username = ''alice'', password = ''pw-a'', port = None, secure = None\<rparr>"
  by code_simp

lemma endpoint_A: "endpoint_of c serverA = Some (SftpServer ''a.example'' (session_port c serverA 22))"
  by (simp add: endpoint_of_def Let_def) code_simp

lemma port_A: "session_port (Some \<lparr>username = u, password = p, port = None, secure = s\<rparr>) serverA 22 = 22"
  by (simp add: session_port_def or_default_def or_num_def truthy_num_def serverA_def)

lemma address_A: "address_of serverA p = p"
  by (simp add: address_of_def) code_simp

lemma endpoint_B:
  "endpoint_of c serverB = Some (S3Bucket (Some ''https://s3.example'') ''us-east-1'' ''backup'')"
  by (simp add: endpoint_of_def Let_def) code_simp

lemma address_B: "address_of serverB ''/archive/report.pdf'' = ''archive/report.pdf''"
  by (simp add: address_of_def s3_key_def) code_simp
subsection \<open>The handler among other handlers\<close>

lemma meanwhile_result: "result_of (meanwhile f s) = result_of s"
  by (cases s) (simp add: meanwhile_def)

lemma meanwhile_calls: "calls_of (meanwhile f s) = calls_of s"
  by (cases s) (simp add: meanwhile_def)

lemma meanwhile_world:
  "world_of (meanwhile f s) = (if calls_of s = [] then world_of s else f (world_of s))"
  by (cases s) (simp add: meanwhile_def)

lemma meanwhile_waited:
  "calls_of s \<noteq> [] \<Longrightarrow> meanwhile f s = (result_of s, f (world_of s), calls_of s)"
  by (cases s) (simp add: meanwhile_def)

lemma meanwhile_alone: "meanwhile (\<lambda>w. w) s = s"
  by (cases s) (simp add: meanwhile_def)

lemma transfer_among_alone: "transfer_among alone = transfer"
  by (intro ext)
    (simp add: transfer_among_def transfer_def transfer_steps_among_def transfer_steps_def
      alone_def meanwhile_alone)

lemma transfer_among_world:
  "\<not> isDir req \<Longrightarrow>
   world_of (transfer_among oth store userId dirname now e req w) =
     cleanup (tempFile dirname now (fileName req))
       (world_of (transfer_steps_among oth store userId (tempFile dirname now (fileName req)) e req w))"
  by (simp add: transfer_among_def Let_def split: prod.splits sum.splits)

lemma transfer_among_calls:
  "\<not> isDir req \<Longrightarrow>
   calls_of (transfer_among oth store userId dirname now e req w) =
     calls_of (transfer_steps_among oth store userId (tempFile dirname now (fileName req)) e req w)"
  by (simp add: transfer_among_def Let_def split: prod.splits sum.splits)

lemma transfer_among_response:
  "\<not> isDir req \<Longrightarrow>
   result_of (transfer_among oth store userId dirname now e req w) =
     (case result_of (transfer_steps_among oth store userId (tempFile dirname now (fileName req))
                        e req w) of
        Inr u \<Rightarrow> (200, if isMove req then FileMoved else FileCopied)
      | Inl err \<Rightarrow> (500, ErrorMessage err))"
  by (simp add: transfer_among_def Let_def split: prod.splits sum.splits)

lemma upload_reported_success_among_iff:
  assumes se: "endpoint_of (getConnectionCredentials store (conn_id (srcConnection req)) userId)
               (srcConnection req) = Some sep"
    and de: "endpoint_of (getConnectionCredentials store (conn_id (dstConnection req)) userId)
               (dstConnection req) = Some dep"
    and q: "\<And>v. disk (after_step1 oth v) tmp = disk v tmp"
  shows "upload_reported_success_among oth store userId tmp e req w \<longleftrightarrow>
           dl e = Succeeds \<and> ul e = Succeeds
         \<and> remote w sep (address_of (srcConnection req) (srcPath req)) \<noteq> None"
  using se de
  by (auto simp add: upload_reported_success_among_def and_then_result step1_endpoint
      step2_endpoint meanwhile_result meanwhile_world download_to_calls q
      download_to_ok upload_from_ok download_to_ok_disk)

subsection \<open>Facts about the scenarios with two transfers\<close>

lemma creds_D:
  "getConnectionCredentials stored_u1 (conn_id serverD) ''u1'' =
     Some \<lparr>username = ''dave'', password = ''pw-d'', port = None, secure = None\<rparr>"
  by code_simp

lemma creds_B:
  "getConnectionCredentials stored_u1 (conn_id serverB) ''u1'' =
     Some \<lparr>username = ''AKIA'', password = ''pw-b'', port = None, secure = None\<rparr>"
  by code_simp

lemma endpoint_D: "endpoint_of c serverD = Some (FtpServer ''d.example'' (session_port c serverD 21))"
  by (simp add: endpoint_of_def Let_def) code_simp

lemma port_D: "session_port (Some \<lparr>username = u, password = p, port = None, secure = s\<rparr>) serverD 21 = 21"
  by (simp add: session_port_def or_default_def or_num_def truthy_num_def serverD_def)

lemma address_D: "address_of serverD p = p"
  by (simp add: address_of_def) code_simp

lemma kind_B: "kind_of serverB = ''s3''"
  by code_simp

lemma address_B_slash: "address_of serverB (CHR ''/'' # p) = p"
  by (simp add: address_of_def s3_key_def kind_B)

lemma download_of_copy_from_D:
  "download_of now (copy_from_D name) v =
     world_of (download_to (FtpServer ''d.example'' 21) (Some ''dave'', Some ''pw-d'')
                 (''/pub/'' @ name) (tempFile ''/app'' now name) Succeeds v)"
  by (simp add: download_of_def copy_from_D_def step1_endpoint creds_D endpoint_D port_D address_D
      login_of_def)

lemma upload_of_copy_from_D:
  "upload_of now (copy_from_D name) v =
     world_of (upload_from (S3Bucket (Some ''https://s3.example'') ''us-east-1'' ''backup'')
                 (Some ''AKIA'', Some ''pw-b'') (tempFile ''/app'' now name) (''mirror/'' @ name)
                 Succeeds v)"
  by (simp add: upload_of_def copy_from_D_def step2_endpoint creds_B endpoint_B address_B_slash
      login_of_def)

lemma kind_A: "kind_of serverA = ''sftp''"
  by code_simp

lemma kind_E: "kind_of serverE = ''s3''"
  by code_simp

lemma kind_F: "kind_of serverF = ''s3''"
  by code_simp

lemma bucket_E: "s3_bucket serverE = S3Bucket None ''us-east-1'' ''backup''"
  by code_simp

lemma bucket_F: "s3_bucket serverF = S3Bucket None ''us-east-1'' ''backup''"
  by code_simp

lemma creds_E:
  "getConnectionCredentials stored_u1 (conn_id serverE) ''u1'' =
     Some \<lparr>username = ''AKIA'', password = ''pw-b'', port = None, secure = None\<rparr>"
  by code_simp

lemma creds_F:
  "getConnectionCredentials stored_u1 (conn_id serverF) ''u1'' =
     Some \<lparr>username = ''AKIA'', password = ''pw-b'', port = None, secure = None\<rparr>"
  by code_simp

lemma staging_of_notes:
  "tempFile ''/app'' now ''notes.txt'' \<noteq> tempFile ''/app'' now ''report.pdf''"
  by (simp add: temp_segment)

subsection \<open>Claims about the transfer endpoint\<close>

text \<open>
  C1, as the code has it. A move between two different files (the name of the source and
  the name of the destination do not denote the same remote file), on a server whose
  other handlers, while the move waits, write neither the move's staging file nor its
  source file nor its destination file and leave unchanged which file a name denotes: the
  delete of the source is started if and only if the upload to the destination reported
  success. A move answered with success leaves the destination holding the content the
  source had, and the source absent; a move whose upload did not report success leaves
  the source file as it was. When the upload reported success and the delete succeeds,
  the move is answered with success.
\<close>

theorem undisturbed_move_deletes_source_iff_upload_succeeded:
  assumes nd: "\<not> isDir req" and mv: "isMove req"
    and se: "endpoint_of (getConnectionCredentials store (conn_id (srcConnection req)) userId)
               (srcConnection req) = Some sep"
    and de: "endpoint_of (getConnectionCredentials store (conn_id (dstConnection req)) userId)
               (dstConnection req) = Some dep"
    and ne: "locate w sep (address_of (srcConnection req) (srcPath req)) \<noteq>
             locate w dep (address_of (dstConnection req) (dstPath req))"
    and quiet: "\<forall>f \<in> {after_step1 oth, after_step2 oth, after_step3 oth}.
                \<forall>v. locate v = locate w \<longrightarrow>
                    locate (f v) = locate w
                  \<and> disk (f v) (tempFile dirname now (fileName req))
                      = disk v (tempFile dirname now (fileName req))
                  \<and> file_at (f v) (locate w sep (address_of (srcConnection req) (srcPath req)))
                      = file_at v (locate w sep (address_of (srcConnection req) (srcPath req)))
                  \<and> file_at (f v) (locate w dep (address_of (dstConnection req) (dstPath req)))
                      = file_at v (locate w dep (address_of (dstConnection req) (dstPath req)))"
  shows "(Del sep (login_of (getConnectionCredentials store (conn_id (srcConnection req)) userId))
              (address_of (srcConnection req) (srcPath req))
            \<in> set (calls_of (transfer_among oth store userId dirname now e req w))
          \<longleftrightarrow> upload_reported_success_among oth store userId
                (tempFile dirname now (fileName req)) e req w)
       \<and> (result_of (transfer_among oth store userId dirname now e req w) = (200, FileMoved) \<longrightarrow>
            remote w sep (address_of (srcConnection req) (srcPath req)) \<noteq> None
          \<and> remote (world_of (transfer_among oth store userId dirname now e req w)) dep
               (address_of (dstConnection req) (dstPath req))
              = remote w sep (address_of (srcConnection req) (srcPath req))
          \<and> remote (world_of (transfer_among oth store userId dirname now e req w)) sep
               (address_of (srcConnection req) (srcPath req)) = None)
       \<and> (\<not> upload_reported_success_among oth store userId
                (tempFile dirname now (fileName req)) e req w \<longrightarrow>
            remote (world_of (transfer_among oth store userId dirname now e req w)) sep
               (address_of (srcConnection req) (srcPath req))
              = remote w sep (address_of (srcConnection req) (srcPath req)))
       \<and> (upload_reported_success_among oth store userId
                (tempFile dirname now (fileName req)) e req w
            \<and> rm e = Succeeds \<longrightarrow>
            result_of (transfer_among oth store userId dirname now e req w) = (200, FileMoved))"
proof -
  define tmp where "tmp = tempFile dirname now (fileName req)"
  define sc where "sc = getConnectionCredentials store (conn_id (srcConnection req)) userId"
  define dc where "dc = getConnectionCredentials store (conn_id (dstConnection req)) userId"
  define sa where "sa = address_of (srcConnection req) (srcPath req)"
  define da where "da = address_of (dstConnection req) (dstPath req)"
  define sl where "sl = login_of sc"
  define dl' where "dl' = login_of dc"
  define S where "S = locate w sep sa"
  define D where "D = locate w dep da"
  define s1 where "s1 = download_to sep sl sa tmp (dl e) w"
  define w1 where "w1 = after_step1 oth (world_of s1)"
  define s2 where "s2 = upload_from dep dl' tmp da (ul e) w1"
  define w2 where "w2 = after_step2 oth (world_of s2)"
  define s3 where "s3 = delete_at sep sl sa (rm e) w2"
  define w3 where "w3 = after_step3 oth (world_of s3)"
  define ok where "ok = (result_of s1 = Inr () \<and> result_of s2 = Inr ())"
  have SD: "S \<noteq> D"
    using ne by (simp add: S_def D_def sa_def da_def)
  have q: "locate (f v) = locate w \<and> disk (f v) tmp = disk v tmp
           \<and> file_at (f v) S = file_at v S \<and> file_at (f v) D = file_at v D"
    if "f \<in> {after_step1 oth, after_step2 oth, after_step3 oth}" and "locate v = locate w" for f v
    using quiet[rule_format, OF that] by (simp add: tmp_def S_def D_def sa_def da_def)
  have c1: "calls_of s1 = [Get sep sl sa]"
    by (simp add: s1_def download_to_calls)
  have c2: "calls_of s2 = [Put dep dl' da]"
    by (simp add: s2_def upload_from_calls)
  have c3: "calls_of s3 = [Del sep sl sa]"
    by (simp add: s3_def delete_at_calls)
  have st1: "step1 sc (srcConnection req) (srcPath req) tmp (dl e) w = s1"
    using se by (simp add: step1_endpoint sc_def s1_def sl_def sa_def)
  have st2: "step2 dc (dstConnection req) tmp (dstPath req) (ul e) w1 = s2"
    using de by (simp add: step2_endpoint dc_def s2_def dl'_def da_def)
  have st3: "step3 (isMove req) sc (srcConnection req) (srcPath req) (rm e) w2 = s3"
    using se mv by (simp add: step3_endpoint sc_def s3_def sl_def sa_def)
  have m1: "meanwhile (after_step1 oth)
              (step1 sc (srcConnection req) (srcPath req) tmp (dl e) w) = (result_of s1, w1, calls_of s1)"
    using meanwhile_waited[of s1 "after_step1 oth"] c1 by (simp add: w1_def st1)
  have m2: "meanwhile (after_step2 oth)
              (step2 dc (dstConnection req) tmp (dstPath req) (ul e) w1) = (result_of s2, w2, calls_of s2)"
    using meanwhile_waited[of s2 "after_step2 oth"] c2 by (simp add: w2_def st2)
  have m3: "meanwhile (after_step3 oth)
              (step3 (isMove req) sc (srcConnection req) (srcPath req) (rm e) w2)
              = (result_of s3, w3, calls_of s3)"
    using meanwhile_waited[of s3 "after_step3 oth"] c3 by (simp add: w3_def st3)
  have urs: "upload_reported_success_among oth store userId tmp e req w = ok"
    using m1 st2
    by (simp add: upload_reported_success_among_def and_then_result ok_def
        sc_def[symmetric] dc_def[symmetric])
  have ts: "transfer_steps_among oth store userId tmp e req w =
              and_then (and_then (result_of s1, w1, calls_of s1)
                 (\<lambda>w'. meanwhile (after_step2 oth)
                          (step2 dc (dstConnection req) tmp (dstPath req) (ul e) w')))
                 (\<lambda>w'. meanwhile (after_step3 oth)
                          (step3 (isMove req) sc (srcConnection req) (srcPath req) (rm e) w'))"
    using m1 by (simp add: transfer_steps_among_def Let_def sc_def[symmetric] dc_def[symmetric])
  have calls: "calls_of (transfer_steps_among oth store userId tmp e req w) =
                 (if ok then calls_of s1 @ calls_of s2 @ calls_of s3
                  else if result_of s1 = Inr () then calls_of s1 @ calls_of s2 else calls_of s1)"
    by (simp add: ts and_then_calls and_then_result and_then_world m2 m3 ok_def)
  have wld: "world_of (transfer_steps_among oth store userId tmp e req w) =
                 (if ok then w3 else if result_of s1 = Inr () then w2 else w1)"
    by (simp add: ts and_then_result and_then_world m2 m3 ok_def)
  have res: "result_of (transfer_steps_among oth store userId tmp e req w) =
                 (if ok then result_of s3
                  else if result_of s1 = Inr () then result_of s2 else result_of s1)"
    by (simp add: ts and_then_result and_then_world m2 m3 ok_def)
  have l1: "locate (world_of s1) = locate w" and f1: "file_at (world_of s1) = file_at w"
    by (simp_all add: s1_def download_to_locate download_to_file_at)
  have q1: "locate w1 = locate w \<and> disk w1 tmp = disk (world_of s1) tmp
            \<and> file_at w1 S = file_at w S \<and> file_at w1 D = file_at w D"
    unfolding w1_def using q[of "after_step1 oth" "world_of s1"] l1 f1 by simp
  have l2: "locate (world_of s2) = locate w"
    using q1 by (simp add: s2_def upload_from_locate)
  have f2: "file_at (world_of s2) S = file_at w S"
    using q1 SD upload_from_file_at[of S w1 dep da dl' tmp "ul e"]
    by (simp add: s2_def D_def)
  have q2: "locate w2 = locate w \<and> file_at w2 S = file_at w S
            \<and> file_at w2 D = file_at (world_of s2) D"
    unfolding w2_def using q[of "after_step2 oth" "world_of s2"] l2 f2 by simp
  have l3: "locate (world_of s3) = locate w"
    using q2 by (simp add: s3_def delete_at_locate)
  have f3: "file_at (world_of s3) D = file_at (world_of s2) D"
    using q2 SD delete_at_file_at[of D w2 sep sa sl "rm e"]
    by (simp add: s3_def S_def)
  have q3: "locate w3 = locate w \<and> file_at w3 S = file_at (world_of s3) S
            \<and> file_at w3 D = file_at (world_of s2) D"
    unfolding w3_def using q[of "after_step3 oth" "world_of s3"] l3 f3 by simp
  have rS: "remote v sep sa = file_at v S" and rD: "remote v dep da = file_at v D"
    if "locate v = locate w" for v
    using that by (simp_all add: remote_def S_def D_def)
  have A: "Del sep sl sa \<in> set (calls_of (transfer_among oth store userId dirname now e req w)) \<longleftrightarrow> ok"
    using nd by (auto simp add: transfer_among_calls tmp_def[symmetric] calls c1 c2 c3)
  have fin: "remote (world_of (transfer_among oth store userId dirname now e req w)) =
               remote (if ok then w3 else if result_of s1 = Inr () then w2 else w1)"
    using nd by (simp add: transfer_among_world tmp_def[symmetric] cleanup_remote wld)
  have C: "\<not> ok \<longrightarrow> remote (world_of (transfer_among oth store userId dirname now e req w)) sep sa
              = remote w sep sa"
    using q1 q2 by (simp add: fin rS)
  have B: "result_of (transfer_among oth store userId dirname now e req w) = (200, FileMoved) \<longrightarrow>
            remote w sep sa \<noteq> None
          \<and> remote (world_of (transfer_among oth store userId dirname now e req w)) dep da
              = remote w sep sa
          \<and> remote (world_of (transfer_among oth store userId dirname now e req w)) sep sa = None"
  proof
    assume "result_of (transfer_among oth store userId dirname now e req w) = (200, FileMoved)"
    then have r: "result_of (transfer_steps_among oth store userId tmp e req w) = Inr ()"
      using nd by (simp add: transfer_among_response tmp_def[symmetric] split: sum.splits)
    then have k: "ok" and k3: "result_of s3 = Inr ()"
      by (auto simp: res ok_def split: if_splits)
    from k have k1: "result_of s1 = Inr ()" and k2: "result_of s2 = Inr ()"
      by (simp_all add: ok_def)
    have e1: "remote w sep sa \<noteq> None"
      using k1 by (simp add: s1_def download_to_ok)
    have d1: "disk w1 tmp = remote w sep sa"
      using k1 download_to_ok_disk[of sep sl sa tmp "dl e" w] q1 by (simp add: s1_def)
    have "remote (world_of s2) dep da = disk w1 tmp"
      using k2 upload_from_ok_remote[of dep dl' tmp da "ul e" w1] by (simp add: s2_def)
    then have e2: "file_at (world_of s2) D = remote w sep sa"
      using l2 d1 by (simp add: rD)
    have "remote (world_of s3) sep sa = None"
      using k3 delete_at_ok_remote[of sep sl sa "rm e" w2] by (simp add: s3_def)
    then have e3: "file_at (world_of s3) S = None"
      using l3 by (simp add: rS)
    show "remote w sep sa \<noteq> None
          \<and> remote (world_of (transfer_among oth store userId dirname now e req w)) dep da
              = remote w sep sa
          \<and> remote (world_of (transfer_among oth store userId dirname now e req w)) sep sa = None"
      using k e1 e2 e3 q3 by (simp add: fin rS rD)
  qed
  have D': "ok \<and> rm e = Succeeds \<longrightarrow>
             result_of (transfer_among oth store userId dirname now e req w) = (200, FileMoved)"
  proof
    assume a: "ok \<and> rm e = Succeeds"
    then have "result_of s3 = Inr ()"
      by (simp add: s3_def delete_at_ok)
    with a show "result_of (transfer_among oth store userId dirname now e req w) = (200, FileMoved)"
      using nd mv by (simp add: transfer_among_response tmp_def[symmetric] res)
  qed
  show ?thesis
    using A B C D'
    by (simp add: urs tmp_def[symmetric] sa_def[symmetric] da_def[symmetric]
        sc_def[symmetric] sl_def[symmetric])
qed

theorem undisturbed_move_deletes_source_iff_upload_succeeded_witness:
  "result_of (transfer_among copying_notes stored_u1 ''u1'' ''/app'' 1700000000000 all_succeed
      (request_between serverA serverB True False) worldAD) = (200, FileMoved)
   \<and> remote (world_of (transfer_among copying_notes stored_u1 ''u1'' ''/app'' 1700000000000
      all_succeed (request_between serverA serverB True False) worldAD))
        (S3Bucket (Some ''https://s3.example'') ''us-east-1'' ''backup'') ''archive/report.pdf''
       = Some ''%PDF-1.7''
   \<and> remote (world_of (transfer_among copying_notes stored_u1 ''u1'' ''/app'' 1700000000000
      all_succeed (request_between serverA serverB True False) worldAD))
        (SftpServer ''a.example'' 22) ''/docs/report.pdf'' = None
   \<and> Del (SftpServer ''a.example'' 22) (Some ''alice'', Some ''pw-a'') ''/docs/report.pdf''
        \<notin> set (calls_of (transfer_among copying_notes stored_u1 ''u1'' ''/app'' 1700000000000
             upload_denied (request_between serverA serverB True False) worldAD))
   \<and> remote (world_of (transfer_among copying_notes stored_u1 ''u1'' ''/app'' 1700000000000
      upload_denied (request_between serverA serverB True False) worldAD))
        (SftpServer ''a.example'' 22) ''/docs/report.pdf'' = Some ''%PDF-1.7''"
proof -
  let ?req = "request_between serverA serverB True False"
  let ?A = "SftpServer ''a.example'' 22"
  let ?B = "S3Bucket (Some ''https://s3.example'') ''us-east-1'' ''backup''"
  have h1: "\<not> isDir ?req" and h2: "isMove ?req"
    by (simp_all add: request_between_def)
  have h3: "endpoint_of (getConnectionCredentials stored_u1 (conn_id (srcConnection ?req)) ''u1'')
               (srcConnection ?req) = Some ?A"
    by (simp add: request_between_def creds_A endpoint_A port_A)
  have h4: "endpoint_of (getConnectionCredentials stored_u1 (conn_id (dstConnection ?req)) ''u1'')
               (dstConnection ?req) = Some ?B"
    by (simp add: request_between_def endpoint_B)
  have a1: "address_of (srcConnection ?req) (srcPath ?req) = ''/docs/report.pdf''"
    by (simp add: request_between_def address_A)
  have a2: "address_of (dstConnection ?req) (dstPath ?req) = ''archive/report.pdf''"
    by (simp add: request_between_def address_B)
  have fn: "fileName ?req = ''report.pdf''"
    by (simp add: request_between_def)
  have lc: "locate worldAD = Pair"
    by (simp add: worldAD_def)
  have h5: "locate worldAD ?A (address_of (srcConnection ?req) (srcPath ?req)) \<noteq>
            locate worldAD ?B (address_of (dstConnection ?req) (dstPath ?req))"
    by (simp add: lc)
  have h6: "\<forall>f \<in> {after_step1 copying_notes, after_step2 copying_notes, after_step3 copying_notes}.
            \<forall>v. locate v = locate worldAD \<longrightarrow>
            locate (f v) = locate worldAD
          \<and> disk (f v) (tempFile ''/app'' 1700000000000 (fileName ?req))
              = disk v (tempFile ''/app'' 1700000000000 (fileName ?req))
          \<and> file_at (f v) (locate worldAD ?A (address_of (srcConnection ?req) (srcPath ?req)))
              = file_at v (locate worldAD ?A (address_of (srcConnection ?req) (srcPath ?req)))
          \<and> file_at (f v) (locate worldAD ?B (address_of (dstConnection ?req) (dstPath ?req)))
              = file_at v (locate worldAD ?B (address_of (dstConnection ?req) (dstPath ?req)))"
  proof (intro ballI allI impI)
    fix f :: "world \<Rightarrow> world" and v :: world
    assume m: "f \<in> {after_step1 copying_notes, after_step2 copying_notes, after_step3 copying_notes}"
      and l: "locate v = locate worldAD"
    have lv: "locate v = Pair"
      using l by (simp add: lc)
    consider "f = download_of 1700000000000 (copy_from_D ''notes.txt'')"
      | "f = upload_of 1700000000000 (copy_from_D ''notes.txt'')" | "f = (\<lambda>w. w)"
      using m by (auto simp add: copying_notes_def)
    then show "locate (f v) = locate worldAD
          \<and> disk (f v) (tempFile ''/app'' 1700000000000 (fileName ?req))
              = disk v (tempFile ''/app'' 1700000000000 (fileName ?req))
          \<and> file_at (f v) (locate worldAD ?A (address_of (srcConnection ?req) (srcPath ?req)))
              = file_at v (locate worldAD ?A (address_of (srcConnection ?req) (srcPath ?req)))
          \<and> file_at (f v) (locate worldAD ?B (address_of (dstConnection ?req) (dstPath ?req)))
              = file_at v (locate worldAD ?B (address_of (dstConnection ?req) (dstPath ?req)))"
    proof cases
      case 1
      then show ?thesis
        using staging_of_notes[of 1700000000000]
        by (simp add: download_of_copy_from_D download_to_locate download_to_file_at
            download_to_disk fn lv lc)
    next
      case 2
      then show ?thesis
        by (simp add: upload_of_copy_from_D upload_from_locate upload_from_file_at
            upload_from_disk fn lv lc a1 a2)
    next
      case 3
      then show ?thesis by (simp add: l)
    qed
  qed
  have qd: "disk (after_step1 copying_notes v) (tempFile ''/app'' 1700000000000 (fileName ?req))
              = disk v (tempFile ''/app'' 1700000000000 (fileName ?req))" for v
    using staging_of_notes[of 1700000000000]
    by (simp add: copying_notes_def download_of_copy_from_D download_to_disk fn)
  have lg: "login_of (getConnectionCredentials stored_u1 (conn_id (srcConnection ?req)) ''u1'')
              = (Some ''alice'', Some ''pw-a'')"
    by (simp add: request_between_def creds_A login_of_def)
  have w0: "remote worldAD ?A ''/docs/report.pdf'' = Some ''%PDF-1.7''"
    by (simp add: worldAD_def remote_def)
  have ok: "upload_reported_success_among copying_notes stored_u1 ''u1''
              (tempFile ''/app'' 1700000000000 (fileName ?req)) all_succeed ?req worldAD"
    by (simp add: upload_reported_success_among_iff[OF h3 h4 qd] a1 w0 all_succeed_def)
  have nok: "\<not> upload_reported_success_among copying_notes stored_u1 ''u1''
              (tempFile ''/app'' 1700000000000 (fileName ?req)) upload_denied ?req worldAD"
    by (simp add: upload_reported_success_among_iff[OF h3 h4 qd] upload_denied_def)
  have rm: "rm all_succeed = Succeeds"
    by (simp add: all_succeed_def)
  note good = undisturbed_move_deletes_source_iff_upload_succeeded[where oth = copying_notes
        and dirname = "''/app''" and now = 1700000000000 and w = worldAD and e = all_succeed
        and req = ?req and store = stored_u1 and userId = "''u1''" and sep = ?A and dep = ?B,
        OF h1 h2 h3 h4 h5 h6]
  note bad = undisturbed_move_deletes_source_iff_upload_succeeded[where oth = copying_notes
        and dirname = "''/app''" and now = 1700000000000 and w = worldAD and e = upload_denied
        and req = ?req and store = stored_u1 and userId = "''u1''" and sep = ?A and dep = ?B,
        OF h1 h2 h3 h4 h5 h6]
  show ?thesis
    using good bad ok nok rm by (simp add: a1 a2 w0 lg)
qed

text \<open>
  C1 as stated fails, in two ways. First, the staging file is not the move's own: a copy
  of a file of the same name that the server received in the same millisecond uses the
  same staging path, and when it downloads between the move's download and the move's
  upload, the move uploads the copy's content to its destination, deletes its source and
  answers with success; the content the source had is lost. Second, two connections can
  name one bucket: the S3 client ignores a host that contains \<open>amazonaws.com\<close>, so the
  connections E and F, whose hosts differ, reach the same bucket; a move from E to F under
  the same key uploads the object onto itself, deletes it and answers with success, and
  the destination does not hold the content.
\<close>

theorem move_loses_file_when_staging_or_bucket_is_shared:
  "result_of (transfer_among copying_report stored_u1 ''u1'' ''/app'' 1700000000000 all_succeed
      (request_between serverA serverD True False) worldAD) = (200, FileMoved)
   \<and> remote worldAD (SftpServer ''a.example'' 22) ''/docs/report.pdf'' = Some ''%PDF-1.7''
   \<and> remote (world_of (transfer_among copying_report stored_u1 ''u1'' ''/app'' 1700000000000
      all_succeed (request_between serverA serverD True False) worldAD))
        (SftpServer ''a.example'' 22) ''/docs/report.pdf'' = None
   \<and> remote (world_of (transfer_among copying_report stored_u1 ''u1'' ''/app'' 1700000000000
      all_succeed (request_between serverA serverD True False) worldAD))
        (FtpServer ''d.example'' 21) ''/archive/report.pdf'' = Some ''other''
   \<and> conn_host serverE \<noteq> conn_host serverF
   \<and> result_of (transfer_among alone stored_u1 ''u1'' ''/app'' 1700000000000 all_succeed
      move_E_to_F worldE) = (200, FileMoved)
   \<and> remote worldE (s3_bucket serverE) ''docs/report.pdf'' = Some ''%PDF-1.7''
   \<and> remote (world_of (transfer_among alone stored_u1 ''u1'' ''/app'' 1700000000000 all_succeed
      move_E_to_F worldE)) (s3_bucket serverF) ''docs/report.pdf'' = None"
proof -
  let ?A = "SftpServer ''a.example'' 22"
  let ?D = "FtpServer ''d.example'' 21"
  let ?E = "S3Bucket None ''us-east-1'' ''backup''"
  have t1: "transfer_among copying_report stored_u1 ''u1'' ''/app'' 1700000000000 all_succeed
      (request_between serverA serverD True False) worldAD
     = ((200, FileMoved),
        \<lparr>locate = Pair,
         file_at = [(?D, ''/pub/report.pdf'') \<mapsto> ''other'',
                    (?D, ''/pub/notes.txt'') \<mapsto> ''notes'',
                    (?D, ''/archive/report.pdf'') \<mapsto> ''other''],
         disk = Map.empty\<rparr>,
        [Get ?A (Some ''alice'', Some ''pw-a'') ''/docs/report.pdf'',
         Put ?D (Some ''dave'', Some ''pw-d'') ''/archive/report.pdf'',
         Del ?A (Some ''alice'', Some ''pw-a'') ''/docs/report.pdf''])"
    by (simp add: transfer_among_def transfer_steps_among_def request_between_def all_succeed_def
        copying_report_def download_of_copy_from_D
        step1_endpoint step2_endpoint step3_endpoint creds_A creds_D endpoint_A endpoint_D port_A
        port_D address_A address_D login_of_def
        and_then_def meanwhile_def download_to_def upload_from_def delete_at_def
        put_disk_def put_remote_def drop_remote_def cleanup_def remote_def worldAD_def fun_eq_iff)
  have t2: "transfer_among alone stored_u1 ''u1'' ''/app'' 1700000000000 all_succeed
      move_E_to_F worldE
     = ((200, FileMoved), \<lparr>locate = Pair, file_at = Map.empty, disk = Map.empty\<rparr>,
        [Get ?E (Some ''AKIA'', Some ''pw-b'') ''docs/report.pdf'',
         Put ?E (Some ''AKIA'', Some ''pw-b'') ''docs/report.pdf'',
         Del ?E (Some ''AKIA'', Some ''pw-b'') ''docs/report.pdf''])"
    by (simp add: transfer_among_def transfer_steps_among_def move_E_to_F_def all_succeed_def
        alone_def step1_def step2_def step3_def kind_E kind_F bucket_E bucket_F creds_E creds_F
        s3_key_def login_of_def
        and_then_def meanwhile_def download_to_def upload_from_def delete_at_def
        put_disk_def put_remote_def drop_remote_def cleanup_def remote_def worldE_def fun_eq_iff)
  have h: "conn_host serverE \<noteq> conn_host serverF"
    by (simp add: serverE_def serverF_def)
  have w0: "remote worldAD ?A ''/docs/report.pdf'' = Some ''%PDF-1.7''"
    by (simp add: worldAD_def remote_def)
  have w1: "remote worldE ?E ''docs/report.pdf'' = Some ''%PDF-1.7''"
    by (simp add: worldE_def remote_def)
  show ?thesis
    by (simp add: t1 t2 h w0 w1 bucket_E bucket_F) (simp add: remote_def)
qed
text \<open>
  C2. For every transfer of a file (copy or move, whatever the outcome of the download,
  the upload and the delete), the staging file does not exist when the handler has
  settled: the local disk is the one before the request, without the staging path.
\<close>

theorem staging_file_removed:
  "\<not> isDir req \<Longrightarrow>
     disk (world_of (transfer store userId dirname now e req w)) =
       (disk w)(tempFile dirname now (fileName req) := None)"
proof
  fix q
  assume d: "\<not> isDir req"
  show "disk (world_of (transfer store userId dirname now e req w)) q =
       ((disk w)(tempFile dirname now (fileName req) := None)) q"
  proof (cases "q = tempFile dirname now (fileName req)")
    case True
    then show ?thesis using d by (simp add: transfer_world cleanup_disk)
  next
    case False
    then show ?thesis using d by (simp add: transfer_world cleanup_disk_other transfer_steps_disk)
  qed
qed

theorem staging_file_removed_witness:
  "disk (world_of (transfer stored_u1 ''u1'' ''/app'' 1700000000000
       \<lparr>dl = Fails ''ECONNRESET'' (Some ''%PD''), ul = Succeeds, rm = Succeeds\<rparr>
       (request_between serverA serverB False False) worldA))
     (tempFile ''/app'' 1700000000000 ''report.pdf'') = None"
proof -
  have h: "\<not> isDir (request_between serverA serverB False False)"
    by (simp add: request_between_def)
  show ?thesis
    using staging_file_removed[OF h, of stored_u1 "''u1''" "''/app''" 1700000000000
        "\<lparr>dl = Fails ''ECONNRESET'' (Some ''%PD''), ul = Succeeds, rm = Succeeds\<rparr>" worldA]
    by (simp add: request_between_def)
qed

text \<open>
  C5. A transfer requested for a directory is answered with status 400 and the
  folders-not-supported error before step 1: the world is unchanged (no staging file is
  created) and no remote operation is started.
\<close>

theorem directory_transfer_rejected:
  "isDir req \<Longrightarrow>
     transfer store userId dirname now e req w = ((400, FolderTransferNotSupported), w, [])"
  by (simp add: transfer_def)

theorem directory_transfer_rejected_witness:
  "transfer stored_u1 ''u1'' ''/app'' 1700000000000 all_succeed
     (request_between serverA serverB True True) worldA
   = ((400, FolderTransferNotSupported), worldA, [])"
proof -
  have h: "isDir (request_between serverA serverB True True)"
    by (simp add: request_between_def)
  show ?thesis
    by (rule directory_transfer_rejected[OF h])
qed

text \<open>
  C10. The endpoint has branches for the kinds sftp, ftp and s3 only (compared in lower
  case). A source of another kind is answered with status 500 and the unsupported-source
  error; no remote operation is started and no remote file changes. A supported source
  with a destination of another kind is answered with status 500 (with the
  unsupported-destination error when the download succeeded); the only remote operation
  started is the download of step 1, no upload is started and no remote file changes. In
  both cases the staging file does not exist afterwards.
\<close>

theorem unsupported_kinds_rejected:
  assumes "\<not> isDir req"
  shows "(kind_of (srcConnection req) \<notin> {''sftp'', ''ftp'', ''s3''} \<longrightarrow>
            result_of (transfer store userId dirname now e req w)
              = (500, ErrorMessage (UnsupportedSource (conn_type (srcConnection req))))
          \<and> calls_of (transfer store userId dirname now e req w) = []
          \<and> remote (world_of (transfer store userId dirname now e req w)) = remote w
          \<and> disk (world_of (transfer store userId dirname now e req w))
               (tempFile dirname now (fileName req)) = None)
       \<and> (kind_of (srcConnection req) \<in> {''sftp'', ''ftp'', ''s3''} \<and>
          kind_of (dstConnection req) \<notin> {''sftp'', ''ftp'', ''s3''} \<longrightarrow>
            fst (result_of (transfer store userId dirname now e req w)) = 500
          \<and> (result_of (step1 (getConnectionCredentials store (conn_id (srcConnection req)) userId)
                  (srcConnection req) (srcPath req) (tempFile dirname now (fileName req)) (dl e) w)
                = Inr () \<longrightarrow>
              result_of (transfer store userId dirname now e req w)
                = (500, ErrorMessage (UnsupportedDest (conn_type (dstConnection req)))))
          \<and> calls_of (transfer store userId dirname now e req w)
              = calls_of (step1 (getConnectionCredentials store (conn_id (srcConnection req)) userId)
                  (srcConnection req) (srcPath req) (tempFile dirname now (fileName req)) (dl e) w)
          \<and> (\<forall>ep lg a. Put ep lg a \<notin> set (calls_of (transfer store userId dirname now e req w)))
          \<and> remote (world_of (transfer store userId dirname now e req w)) = remote w
          \<and> disk (world_of (transfer store userId dirname now e req w))
               (tempFile dirname now (fileName req)) = None)"
proof (intro conjI impI)
  assume k: "kind_of (srcConnection req) \<notin> {''sftp'', ''ftp'', ''s3''}"
  have t: "transfer store userId dirname now e req w =
              ((500, ErrorMessage (UnsupportedSource (conn_type (srcConnection req)))),
               cleanup (tempFile dirname now (fileName req)) w, [])"
    using assms k
    by (simp add: transfer_def transfer_steps_def Let_def step1_unsupported and_then_def)
  show "result_of (transfer store userId dirname now e req w)
              = (500, ErrorMessage (UnsupportedSource (conn_type (srcConnection req))))"
    by (simp add: t)
  show "calls_of (transfer store userId dirname now e req w) = []"
    by (simp add: t)
  show "remote (world_of (transfer store userId dirname now e req w)) = remote w"
    by (simp add: t cleanup_remote)
  show "disk (world_of (transfer store userId dirname now e req w))
               (tempFile dirname now (fileName req)) = None"
    by (simp add: t cleanup_disk)
next
  assume k: "kind_of (srcConnection req) \<in> {''sftp'', ''ftp'', ''s3''} \<and>
          kind_of (dstConnection req) \<notin> {''sftp'', ''ftp'', ''s3''}"
  then have u: "\<And>c tmp p oc w. step2 c (dstConnection req) tmp p oc w =
      (Inl (UnsupportedDest (conn_type (dstConnection req))), w, [])"
    by (simp add: step2_unsupported)
  show "fst (result_of (transfer store userId dirname now e req w)) = 500"
    using assms
    by (simp add: transfer_response transfer_steps_def Let_def and_then_result u
        split: sum.splits)
  show c: "calls_of (transfer store userId dirname now e req w)
              = calls_of (step1 (getConnectionCredentials store (conn_id (srcConnection req)) userId)
                  (srcConnection req) (srcPath req) (tempFile dirname now (fileName req)) (dl e) w)"
    using assms
    by (simp add: transfer_calls transfer_steps_def Let_def and_then_calls and_then_result u)
  show "\<forall>ep lg a. Put ep lg a \<notin> set (calls_of (transfer store userId dirname now e req w))"
    by (simp add: c step1_no_put)
  show "remote (world_of (transfer store userId dirname now e req w)) = remote w"
    using assms
    by (simp add: transfer_world transfer_steps_def Let_def and_then_world and_then_result u
        cleanup_remote step1_remote)
  show "disk (world_of (transfer store userId dirname now e req w))
               (tempFile dirname now (fileName req)) = None"
    using assms by (simp add: transfer_world cleanup_disk)
  assume "result_of (step1 (getConnectionCredentials store (conn_id (srcConnection req)) userId)
                  (srcConnection req) (srcPath req) (tempFile dirname now (fileName req)) (dl e) w)
                = Inr ()"
  then show "result_of (transfer store userId dirname now e req w)
                = (500, ErrorMessage (UnsupportedDest (conn_type (dstConnection req))))"
    using assms
    by (simp add: transfer_response transfer_steps_def Let_def and_then_result u)
qed

theorem unsupported_kinds_rejected_witness:
  "result_of (transfer stored_u1 ''u1'' ''/app'' 1700000000000 all_succeed
      (request_between serverC serverB False False) worldA)
     = (500, ErrorMessage (UnsupportedSource (Some ''SMB'')))
   \<and> calls_of (transfer stored_u1 ''u1'' ''/app'' 1700000000000 all_succeed
      (request_between serverC serverB False False) worldA) = []
   \<and> result_of (transfer stored_u1 ''u1'' ''/app'' 1700000000000 all_succeed
      (request_between serverA serverC False False) worldA)
     = (500, ErrorMessage (UnsupportedDest (Some ''SMB'')))
   \<and> calls_of (transfer stored_u1 ''u1'' ''/app'' 1700000000000 all_succeed
      (request_between serverA serverC False False) worldA)
     = [Get (SftpServer ''a.example'' 22) (Some ''alice'', Some ''pw-a'') ''/docs/report.pdf'']
   \<and> disk (world_of (transfer stored_u1 ''u1'' ''/app'' 1700000000000 all_succeed
      (request_between serverA serverC False False) worldA))
        (tempFile ''/app'' 1700000000000 ''report.pdf'') = None"
proof -
  let ?r1 = "request_between serverC serverB False False"
  let ?r2 = "request_between serverA serverC False False"
  have h1: "\<not> isDir ?r1" and h2: "\<not> isDir ?r2"
    by (simp_all add: request_between_def)
  have k1: "kind_of (srcConnection ?r1) \<notin> {''sftp'', ''ftp'', ''s3''}"
    by code_simp
  have k2: "kind_of (srcConnection ?r2) \<in> {''sftp'', ''ftp'', ''s3''} \<and>
            kind_of (dstConnection ?r2) \<notin> {''sftp'', ''ftp'', ''s3''}"
    by code_simp
  have c: "conn_type (srcConnection ?r1) = Some ''SMB''" "conn_type (dstConnection ?r2) = Some ''SMB''"
    by (simp_all add: request_between_def serverC_def)
  have s1: "step1 (getConnectionCredentials stored_u1 (conn_id (srcConnection ?r2)) ''u1'')
              (srcConnection ?r2) (srcPath ?r2) (tempFile ''/app'' 1700000000000 (fileName ?r2))
              (dl all_succeed) worldA
            = (Inr (), put_disk (tempFile ''/app'' 1700000000000 ''report.pdf'') (Some ''%PDF-1.7'') worldA,
               [Get (SftpServer ''a.example'' 22) (Some ''alice'', Some ''pw-a'') ''/docs/report.pdf''])"
    by (simp add: step1_endpoint request_between_def all_succeed_def creds_A endpoint_A port_A
        address_A download_to_def login_of_def worldA_def remote_def)
  have f: "fileName ?r2 = ''report.pdf''"
    by (simp add: request_between_def)
  note T1 = unsupported_kinds_rejected[OF h1, of stored_u1 "''u1''" "''/app''" 1700000000000
      all_succeed worldA, THEN conjunct1, THEN mp, OF k1]
  note T2 = unsupported_kinds_rejected[OF h2, of stored_u1 "''u1''" "''/app''" 1700000000000
      all_succeed worldA, THEN conjunct2, THEN mp, OF k2, unfolded s1]
  show ?thesis
    using T1 T2 by (simp add: c f)
qed

section \<open>Properties of the per-backend endpoints\<close>

subsection \<open>Server-side copy\<close>

lemma copy_object_ok:
  "result_of (copy_object ep lg a b oc w) = Inr () \<longleftrightarrow> oc = Succeeds \<and> remote w ep a \<noteq> None"
  by (auto simp add: copy_object_def split: outcome.splits option.splits)

lemma copy_object_calls: "calls_of (copy_object ep lg a b oc w) = [Copy ep lg a b]"
  by (simp add: copy_object_def split: outcome.splits option.splits)

lemma copy_object_world:
  "world_of (copy_object ep lg a b oc w) =
     (if oc = Succeeds \<and> remote w ep a \<noteq> None then put_remote ep b (remote w ep a) w else w)"
  by (auto simp add: copy_object_def split: outcome.splits option.splits)

subsection \<open>Sorting with a comparator\<close>

lemma mset_insert_sorted: "mset (insert_sorted cmp x ys) = add_mset x (mset ys)"
  by (induction ys) auto

lemma mset_js_sort: "mset (js_sort cmp xs) = mset xs"
  by (induction xs) (auto simp: js_sort_def mset_insert_sorted)

lemma set_insert_sorted: "set (insert_sorted cmp x ys) = insert x (set ys)"
  by (induction ys) auto

lemma set_js_sort: "set (js_sort cmp xs) = set xs"
  by (induction xs) (auto simp: js_sort_def set_insert_sorted)

lemma sorted_insert_sorted:
  assumes total: "\<And>a b. cmp a b \<le> 0 \<or> cmp b a \<le> 0"
    and trans: "\<And>a b c. cmp a b \<le> 0 \<Longrightarrow> cmp b c \<le> 0 \<Longrightarrow> cmp a c \<le> 0"
  shows "sorted_wrt (\<lambda>a b. cmp a b \<le> 0) ys \<Longrightarrow>
         sorted_wrt (\<lambda>a b. cmp a b \<le> 0) (insert_sorted cmp x ys)"
proof (induction ys)
  case Nil
  then show ?case by simp
next
  case (Cons y ys)
  show ?case
  proof (cases "cmp x y \<le> 0")
    case True
    then have "\<forall>z \<in> set ys. cmp x z \<le> 0"
      using Cons.prems trans by auto
    with True Cons.prems show ?thesis by simp
  next
    case False
    then have "cmp y x \<le> 0" using total by blast
    with False Cons show ?thesis by (auto simp: set_insert_sorted)
  qed
qed

lemma sorted_js_sort:
  assumes total: "\<And>a b. cmp a b \<le> 0 \<or> cmp b a \<le> 0"
    and trans: "\<And>a b c. cmp a b \<le> 0 \<Longrightarrow> cmp b c \<le> 0 \<Longrightarrow> cmp a c \<le> 0"
  shows "sorted_wrt (\<lambda>a b. cmp a b \<le> 0) (js_sort cmp xs)"
proof (induction xs)
  case Nil
  then show ?case by (simp add: js_sort_def)
next
  case (Cons x xs)
  have "js_sort cmp (x # xs) = insert_sorted cmp x (js_sort cmp xs)"
    by (simp add: js_sort_def)
  then show ?case
    using sorted_insert_sorted[of cmp, OF total trans] Cons by simp
qed

lemma compare_items_total:
  assumes "\<And>a b. lc a b \<le> 0 \<or> lc b a \<le> 0"
  shows "compare_items lc a b \<le> 0 \<or> compare_items lc b a \<le> 0"
  using assms[of "fi_name a" "fi_name b"]
  by (cases "fi_type a"; cases "fi_type b") (auto simp: compare_items_def)

lemma compare_items_trans:
  assumes "\<And>a b c. lc a b \<le> 0 \<Longrightarrow> lc b c \<le> 0 \<Longrightarrow> lc a c \<le> 0"
    and "compare_items lc a b \<le> 0" and "compare_items lc b c \<le> 0"
  shows "compare_items lc a c \<le> 0"
  using assms(2,3) assms(1)[of "fi_name a" "fi_name b" "fi_name c"]
  by (cases "fi_type a"; cases "fi_type b"; cases "fi_type c")
     (auto simp: compare_items_def split: if_splits)

lemma compare_items_le:
  "compare_items lc a b \<le> 0 \<Longrightarrow>
     (fi_type a = Folder \<or> fi_type b = File)
     \<and> (fi_type a = fi_type b \<longrightarrow> lc (fi_name a) (fi_name b) \<le> 0)"
  by (cases "fi_type a"; cases "fi_type b") (auto simp: compare_items_def split: if_splits)

subsection \<open>Comparison by character code\<close>

lemma compare_codes_total: "compare_codes a b \<le> 0 \<or> compare_codes b a \<le> 0"
proof (induction a b rule: compare_codes.induct)
  case (4 x xs y ys)
  then show ?case
    by (cases "char_code x < char_code y"; cases "char_code y < char_code x") simp_all
qed simp_all

lemma compare_codes_trans:
  "compare_codes a b \<le> 0 \<Longrightarrow> compare_codes b c \<le> 0 \<Longrightarrow> compare_codes a c \<le> 0"
proof (induction a b arbitrary: c rule: compare_codes.induct)
  case 1
  then show ?case by simp
next
  case (2 y ys)
  then show ?case by (cases c) simp_all
next
  case (3 x xs)
  then show ?case by simp
next
  case (4 x xs y ys)
  show ?case
  proof (cases c)
    case Nil
    with 4 show ?thesis by simp
  next
    case (Cons z zs)
    have xy: "\<not> char_code y < char_code x"
      using "4.prems"(1) by (simp split: if_splits)
    have yz: "\<not> char_code z < char_code y"
      using "4.prems"(2) Cons by (simp split: if_splits)
    show ?thesis
    proof (cases "char_code x < char_code z")
      case True
      then show ?thesis using Cons by simp
    next
      case False
      with xy yz have e: "char_code x = char_code y" "char_code y = char_code z"
        by linarith+
      then have "compare_codes xs ys \<le> 0" "compare_codes ys zs \<le> 0"
        using "4.prems" Cons by simp_all
      then have "compare_codes xs zs \<le> 0"
        using "4.IH"[of zs] e by simp
      then show ?thesis using Cons e by simp
    qed
  qed
qed

subsection \<open>The credentials of a handler\<close>

lemma reads_credentials_Ftp_list: "reads_credentials Ftp_list"
  by (simp add: reads_credentials_def)

lemma handler_credentials_explicit:
  assumes r: "reads_credentials h"
    and u: "truthy_str (rq_username body)" and p: "truthy_str (rq_password body)"
  shows "handler_credentials h store userId has_file body =
           (if takes_file h \<and> \<not> has_file then (Inl (400, NoFileSent), [])
            else if other_fields_missing h body then (Inl (refusal h), [])
            else (Inr (str_of (rq_username body), str_of (rq_password body)), []))"
  using r u p
  by (simp add: handler_credentials_def consult_store_def or_str_def Let_def
      reads_credentials_Ftp_list)

lemma handler_credentials_lookups:
  "snd (handler_credentials h store userId has_file body) \<noteq> [] \<Longrightarrow>
     truthy_str (rq_connectionId body)
     \<and> (reads_credentials h \<longrightarrow> \<not> truthy_str (rq_username body) \<or> \<not> truthy_str (rq_password body))"
  by (auto simp add: handler_credentials_def consult_store_def consult_store_upload_def Let_def
      split: if_splits prod.splits)

lemma truthy_username: 
  "getConnectionCredentials store cid userId = Some s \<Longrightarrow>
     truthy_str (Some (username s)) \<and> truthy_str (Some (password s))"
  by (auto simp add: getConnectionCredentials_def truthy_str_def split: option.splits if_splits)

lemma handler_credentials_stored:
  assumes c: "truthy_str (rq_connectionId body)"
    and a: "reads_credentials h \<longrightarrow> \<not> truthy_str (rq_username body) \<or> \<not> truthy_str (rq_password body)"
    and g: "getConnectionCredentials store (str_of (rq_connectionId body)) userId = Some s"
    and k: "fst (handler_credentials h store userId has_file body) = Inr x"
  shows "x = (username s, password s)"
  using c a g k truthy_username[OF g]
  by (auto simp add: handler_credentials_def consult_store_def consult_store_upload_def Let_def
      or_str_def str_of_def split: if_splits)

lemma handler_credentials_upload:
  assumes r: "\<not> reads_credentials h"
    and k: "handler_credentials h store userId has_file body = (Inr x, lk)"
  shows "\<exists>s. getConnectionCredentials store (str_of (rq_connectionId body)) userId = Some s
            \<and> x = (username s, password s)"
proof -
  have n: "h \<noteq> Ftp_list"
    using r by (auto simp add: reads_credentials_def)
  show ?thesis
    using r k n
    by (auto simp add: handler_credentials_def consult_store_upload_def Let_def str_of_def
        truthy_str_def split: if_splits option.splits)
qed

lemma and_then_calls_subset:
  "set (calls_of (and_then s f)) \<subseteq> set (calls_of s) \<union> set (calls_of (f (world_of s)))"
  by (simp add: and_then_calls)

lemma step1_logins: "ev \<in> set (calls_of (step1 c src p tmp oc w)) \<Longrightarrow> login_in ev = login_of c"
  by (auto simp add: step1_endpoint download_to_calls split: option.splits)

lemma step2_logins: "ev \<in> set (calls_of (step2 c dst tmp p oc w)) \<Longrightarrow> login_in ev = login_of c"
  by (auto simp add: step2_endpoint upload_from_calls split: option.splits)

lemma step3_logins: "ev \<in> set (calls_of (step3 m c src p oc w)) \<Longrightarrow> login_in ev = login_of c"
  by (auto simp add: step3_endpoint delete_at_calls split: option.splits if_splits)

lemma transfer_logins:
  assumes "ev \<in> set (calls_of (transfer store userId dirname now e req w))"
  shows "login_in ev = login_of (getConnectionCredentials store (conn_id (srcConnection req)) userId)
       \<or> login_in ev = login_of (getConnectionCredentials store (conn_id (dstConnection req)) userId)"
proof (cases "isDir req")
  case True
  then show ?thesis using assms by (simp add: transfer_def)
next
  case False
  then have "ev \<in> set (calls_of (transfer_steps store userId (tempFile dirname now (fileName req)) e req w))"
    using assms by (simp add: transfer_calls)
  then show ?thesis
    by (auto simp add: transfer_steps_def Let_def and_then_calls
        dest: step1_logins step2_logins step3_logins split: if_splits)
qed

text \<open>
  The handlers of SFTP list and SFTP upload, modelled with the whole of their session
  options, agree with the model of all handlers.
\<close>

lemma sftp_list_session_credentials:
  "fst (handler_credentials Sftp_list store userId has_file body) =
     map_sum id (\<lambda>s. (s_username s, s_password s)) (fst (sftp_list_session store userId body))
   \<and> snd (handler_credentials Sftp_list store userId has_file body) =
       snd (sftp_list_session store userId body)"
  by (simp add: handler_credentials_def sftp_list_session_def Let_def takes_file_def
      reads_credentials_def refusal_def split: prod.splits option.splits)

lemma sftp_upload_session_credentials:
  "fst (handler_credentials Sftp_upload store userId has_file body) =
     map_sum id (\<lambda>s. (s_username s, s_password s)) (fst (sftp_upload_session store userId has_file body))
   \<and> snd (handler_credentials Sftp_upload store userId has_file body) =
       snd (sftp_upload_session store userId has_file body)"
  by (auto simp add: handler_credentials_def sftp_upload_session_def Let_def takes_file_def
      reads_credentials_def refusal_def split: prod.splits option.splits)

subsection \<open>Claims about the per-backend endpoints\<close>

text \<open>
  C4. A rename on S3 whose request carries credentials, bucket and both keys starts the
  copy to the new key first and starts the delete of the old key only if the copy
  reported success. When the copy succeeds and the delete fails, the old key still holds
  its object and the new key holds the same content.
\<close>

theorem s3_rename_deletes_only_after_copy:
  assumes acc: "s3_rename_fields_present store userId body"
  shows "calls_of (s3_rename store userId copy_oc delete_oc body w) =
           (if result_of (copy_object (s3_bucket_of body) (s3_login store userId body)
                 (str_of (rq_oldKey body)) (str_of (rq_newKey body)) copy_oc w) = Inr ()
            then [Copy (s3_bucket_of body) (s3_login store userId body)
                    (str_of (rq_oldKey body)) (str_of (rq_newKey body)),
                  Del (s3_bucket_of body) (s3_login store userId body) (str_of (rq_oldKey body))]
            else [Copy (s3_bucket_of body) (s3_login store userId body)
                    (str_of (rq_oldKey body)) (str_of (rq_newKey body))])
       \<and> (result_of (copy_object (s3_bucket_of body) (s3_login store userId body)
                 (str_of (rq_oldKey body)) (str_of (rq_newKey body)) copy_oc w) = Inr ()
          \<and> delete_oc \<noteq> Succeeds \<longrightarrow>
            remote w (s3_bucket_of body) (str_of (rq_oldKey body)) \<noteq> None
          \<and> remote (world_of (s3_rename store userId copy_oc delete_oc body w))
               (s3_bucket_of body) (str_of (rq_oldKey body))
              = remote w (s3_bucket_of body) (str_of (rq_oldKey body))
          \<and> remote (world_of (s3_rename store userId copy_oc delete_oc body w))
               (s3_bucket_of body) (str_of (rq_newKey body))
              = remote w (s3_bucket_of body) (str_of (rq_oldKey body)))"
proof -
  define ep where "ep = s3_bucket_of body"
  define lg where "lg = s3_login store userId body"
  define old where "old = str_of (rq_oldKey body)"
  define new where "new = str_of (rq_newKey body)"
  define c where "c = copy_object ep lg old new copy_oc w"
  define d where "d = delete_at ep lg old delete_oc (world_of c)"
  have r: "s3_rename store userId copy_oc delete_oc body w =
             (case and_then c (delete_at ep lg old delete_oc) of
                (Inr u, w', tr) \<Rightarrow> ((200, FileRenamed), w', tr)
              | (Inl err, w', tr) \<Rightarrow> ((500, ErrorMessage err), w', tr))"
    using acc by (simp add: s3_rename_def Let_def lg_def ep_def old_def new_def c_def)
  have calls: "calls_of (s3_rename store userId copy_oc delete_oc body w) =
                 calls_of (and_then c (delete_at ep lg old delete_oc))"
    by (simp add: r split: prod.splits sum.splits)
  have wld: "world_of (s3_rename store userId copy_oc delete_oc body w) =
                 world_of (and_then c (delete_at ep lg old delete_oc))"
    by (simp add: r split: prod.splits sum.splits)
  have A: "calls_of (s3_rename store userId copy_oc delete_oc body w) =
             (if result_of c = Inr () then [Copy ep lg old new, Del ep lg old] else [Copy ep lg old new])"
    by (simp add: calls and_then_calls c_def copy_object_calls delete_at_calls)
  have B: "result_of c = Inr () \<and> delete_oc \<noteq> Succeeds \<longrightarrow>
             remote w ep old \<noteq> None
           \<and> remote (world_of (s3_rename store userId copy_oc delete_oc body w)) ep old = remote w ep old
           \<and> remote (world_of (s3_rename store userId copy_oc delete_oc body w)) ep new = remote w ep old"
  proof
    assume a: "result_of c = Inr () \<and> delete_oc \<noteq> Succeeds"
    then have ok: "copy_oc = Succeeds" and ex: "remote w ep old \<noteq> None"
      by (simp_all add: c_def copy_object_ok)
    have nd: "result_of (delete_at ep lg old delete_oc (world_of c)) \<noteq> Inr ()"
      using a by (simp add: delete_at_ok)
    have w1: "world_of (and_then c (delete_at ep lg old delete_oc)) = world_of c"
      using a delete_at_failed[OF nd] by (simp add: and_then_world)
    have w2: "world_of c = put_remote ep new (remote w ep old) w"
      using ok ex by (simp add: c_def copy_object_world)
    show "remote w ep old \<noteq> None
           \<and> remote (world_of (s3_rename store userId copy_oc delete_oc body w)) ep old = remote w ep old
           \<and> remote (world_of (s3_rename store userId copy_oc delete_oc body w)) ep new = remote w ep old"
      using ex by (auto simp add: wld w1 w2 put_remote_def remote_def)
  qed
  show ?thesis
    using A B by (simp add: ep_def lg_def old_def new_def c_def)
qed

theorem s3_rename_deletes_only_after_copy_witness:
  "calls_of (s3_rename stored_u1 ''u1'' Succeeds (Fails ''AccessDenied'' None) rename_request worldD)
     = [Copy (S3Bucket (Some ''https://s3.example'') ''us-east-1'' ''backup'') (Some ''AKIA'', Some ''pw-b'') ''old.txt'' ''new.txt'',
        Del (S3Bucket (Some ''https://s3.example'') ''us-east-1'' ''backup'') (Some ''AKIA'', Some ''pw-b'') ''old.txt'']
   \<and> remote (world_of (s3_rename stored_u1 ''u1'' Succeeds (Fails ''AccessDenied'' None)
          rename_request worldD)) (S3Bucket (Some ''https://s3.example'') ''us-east-1'' ''backup'') ''old.txt'' = Some ''data''
   \<and> remote (world_of (s3_rename stored_u1 ''u1'' Succeeds (Fails ''AccessDenied'' None)
          rename_request worldD)) (S3Bucket (Some ''https://s3.example'') ''us-east-1'' ''backup'') ''new.txt'' = Some ''data''"
proof -
  have lg: "s3_login stored_u1 ''u1'' rename_request = (Some ''AKIA'', Some ''pw-b'')"
    by (simp add: s3_login_def consult_store_def rename_request_def truthy_str_def)
  have ep: "s3_bucket_of rename_request = S3Bucket (Some ''https://s3.example'') ''us-east-1'' ''backup''"
    by (simp add: s3_bucket_of_def rename_request_def str_of_def) code_simp
  have k: "str_of (rq_oldKey rename_request) = ''old.txt''"
    "str_of (rq_newKey rename_request) = ''new.txt''"
    by (simp_all add: rename_request_def str_of_def)
  have h: "s3_rename_fields_present stored_u1 ''u1'' rename_request"
    by (simp add: s3_rename_fields_present_def lg) (simp add: rename_request_def truthy_str_def)
  have w0: "remote worldD (S3Bucket (Some ''https://s3.example'') ''us-east-1'' ''backup'') ''old.txt'' = Some ''data''"
    by (simp add: worldD_def remote_def)
  have c: "result_of (copy_object (S3Bucket (Some ''https://s3.example'') ''us-east-1'' ''backup'') (Some ''AKIA'', Some ''pw-b'')
             ''old.txt'' ''new.txt'' Succeeds worldD) = Inr ()"
    by (simp add: copy_object_ok w0)
  show ?thesis
    using s3_rename_deletes_only_after_copy[OF h, of Succeeds "Fails ''AccessDenied'' None" worldD]
    by (simp add: lg ep k c w0)
qed

text \<open>
  C6, as the code has it. The handlers that read \<open>username\<close> and \<open>password\<close> from the
  request are all the handlers of SFTP, FTP, S3 and SMB but the upload handlers of SFTP,
  FTP and SMB. For each of them: when both are non-empty, the credential store is not
  consulted, a session the handler opens is opened with them, and the handler opens one
  whenever its other required fields are there; the store is consulted only when a
  connection id is given and one of the two is absent, and a stored entry found then
  gives the credentials of the session. The upload handlers of SFTP, FTP and SMB do not
  read the two fields: every session they open uses the stored credentials of the
  connection id. The transfer endpoint reads no credentials from the request either:
  every operation it starts uses the stored credentials of its source or of its
  destination connection.
\<close>

theorem explicit_credentials_first_except_uploads:
  "(reads_credentials h \<and> truthy_str (rq_username body) \<and> truthy_str (rq_password body) \<longrightarrow>
       snd (handler_credentials h store userId has_file body) = []
     \<and> (\<forall>c. fst (handler_credentials h store userId has_file body) = Inr c \<longrightarrow>
            c = (str_of (rq_username body), str_of (rq_password body)))
     \<and> ((takes_file h \<longrightarrow> has_file) \<and> \<not> other_fields_missing h body \<longrightarrow>
          fst (handler_credentials h store userId has_file body)
            = Inr (str_of (rq_username body), str_of (rq_password body))))
   \<and> (reads_credentials h \<and> snd (handler_credentials h store userId has_file body) \<noteq> [] \<longrightarrow>
        truthy_str (rq_connectionId body)
      \<and> (\<not> truthy_str (rq_username body) \<or> \<not> truthy_str (rq_password body)))
   \<and> (reads_credentials h \<and> truthy_str (rq_connectionId body)
      \<and> (\<not> truthy_str (rq_username body) \<or> \<not> truthy_str (rq_password body)) \<longrightarrow>
        (\<forall>s c. getConnectionCredentials store (str_of (rq_connectionId body)) userId = Some s
               \<and> fst (handler_credentials h store userId has_file body) = Inr c \<longrightarrow>
               c = (username s, password s)))
   \<and> (\<not> reads_credentials h \<longrightarrow>
        (\<forall>c lk. handler_credentials h store userId has_file body = (Inr c, lk) \<longrightarrow>
           (\<exists>s. getConnectionCredentials store (str_of (rq_connectionId body)) userId = Some s
              \<and> c = (username s, password s))))
   \<and> (\<forall>ev \<in> set (calls_of (transfer store userId dirname now e req w)).
        login_in ev = login_of (getConnectionCredentials store (conn_id (srcConnection req)) userId)
      \<or> login_in ev = login_of (getConnectionCredentials store (conn_id (dstConnection req)) userId))"
proof (intro conjI impI allI ballI)
  assume a: "reads_credentials h \<and> truthy_str (rq_username body) \<and> truthy_str (rq_password body)"
  note x = handler_credentials_explicit[of h body store userId has_file]
  show "snd (handler_credentials h store userId has_file body) = []"
    using a by (simp add: x)
  show "c = (str_of (rq_username body), str_of (rq_password body))"
    if "fst (handler_credentials h store userId has_file body) = Inr c" for c
    using a that by (simp add: x split: if_splits)
  show "fst (handler_credentials h store userId has_file body)
            = Inr (str_of (rq_username body), str_of (rq_password body))"
    if "(takes_file h \<longrightarrow> has_file) \<and> \<not> other_fields_missing h body"
    using a that by (auto simp add: x)
next
  assume a: "reads_credentials h \<and> snd (handler_credentials h store userId has_file body) \<noteq> []"
  then show "truthy_str (rq_connectionId body)"
    using handler_credentials_lookups[of h store userId has_file body] by simp
  from a show "\<not> truthy_str (rq_username body) \<or> \<not> truthy_str (rq_password body)"
    using handler_credentials_lookups[of h store userId has_file body] by simp
next
  fix s c
  assume a: "reads_credentials h \<and> truthy_str (rq_connectionId body)
      \<and> (\<not> truthy_str (rq_username body) \<or> \<not> truthy_str (rq_password body))"
    and b: "getConnectionCredentials store (str_of (rq_connectionId body)) userId = Some s
               \<and> fst (handler_credentials h store userId has_file body) = Inr c"
  show "c = (username s, password s)"
    by (rule handler_credentials_stored[of body h store userId s has_file c]) (use a b in simp_all)
next
  fix c lk
  assume "\<not> reads_credentials h"
    and "handler_credentials h store userId has_file body = (Inr c, lk)"
  then show "\<exists>s. getConnectionCredentials store (str_of (rq_connectionId body)) userId = Some s
              \<and> c = (username s, password s)"
    by (rule handler_credentials_upload)
next
  fix ev
  assume "ev \<in> set (calls_of (transfer store userId dirname now e req w))"
  then show "login_in ev = login_of (getConnectionCredentials store (conn_id (srcConnection req)) userId)
      \<or> login_in ev = login_of (getConnectionCredentials store (conn_id (dstConnection req)) userId)"
    by (rule transfer_logins)
qed

theorem explicit_credentials_first_except_uploads_witness:
  "handler_credentials Sftp_download stored_u1 ''u1'' False carol_request
     = (Inr (''carol'', ''pw-c''), [])
   \<and> snd (handler_credentials Ftp_list stored_u1 ''u1'' False stored_request) = [''A'']
   \<and> \<not> truthy_str (rq_username stored_request)
   \<and> fst (handler_credentials Ftp_list stored_u1 ''u1'' False stored_request)
       = Inr (''alice'', ''pw-a'')
   \<and> handler_credentials Smb_upload stored_u1 ''u1'' True share_request
       = (Inr (''alice'', ''pw-a''), [''A''])
   \<and> calls_of (transfer stored_u1 ''u1'' ''/app'' 1700000000000
         \<lparr>dl = Fails ''ECONNRESET'' None, ul = Succeeds, rm = Succeeds\<rparr>
         (request_between serverA serverB True False) worldA)
       = [Get (SftpServer ''a.example'' 22) (Some ''alice'', Some ''pw-a'') ''/docs/report.pdf'']
   \<and> login_of (getConnectionCredentials stored_u1 ''A'' ''u1'') = (Some ''alice'', Some ''pw-a'')"
proof -
  let ?e = "\<lparr>dl = Fails ''ECONNRESET'' None, ul = Succeeds, rm = Succeeds\<rparr>"
  let ?req = "request_between serverA serverB True False"
  note T1 = explicit_credentials_first_except_uploads[of Sftp_download carol_request stored_u1
      "''u1''" False "''/app''" 1700000000000 ?e ?req worldA]
  note T2 = explicit_credentials_first_except_uploads[of Ftp_list stored_request stored_u1
      "''u1''" False "''/app''" 1700000000000 ?e ?req worldA]
  note T3 = explicit_credentials_first_except_uploads[of Smb_upload share_request stored_u1
      "''u1''" True "''/app''" 1700000000000 ?e ?req worldA]
  have h1: "reads_credentials Sftp_download \<and> truthy_str (rq_username carol_request)
            \<and> truthy_str (rq_password carol_request)"
    by (simp add: reads_credentials_def carol_request_def truthy_str_def)
  have f1: "(takes_file Sftp_download \<longrightarrow> False) \<and> \<not> other_fields_missing Sftp_download carol_request"
    by (simp add: takes_file_def carol_request_def truthy_str_def)
  have v1: "str_of (rq_username carol_request) = ''carol''"
    "str_of (rq_password carol_request) = ''pw-c''"
    by (simp_all add: carol_request_def str_of_def)
  have first: "handler_credentials Sftp_download stored_u1 ''u1'' False carol_request
     = (Inr (''carol'', ''pw-c''), [])"
  proof (rule prod_eqI)
    note X = T1[THEN conjunct1, THEN mp, OF h1]
    show "fst (handler_credentials Sftp_download stored_u1 ''u1'' False carol_request)
            = fst (Inr (''carol'', ''pw-c''), [])"
      using X[THEN conjunct2, THEN conjunct2, THEN mp, OF f1] by (simp add: v1)
    show "snd (handler_credentials Sftp_download stored_u1 ''u1'' False carol_request)
            = snd (Inr (''carol'', ''pw-c''), [])"
      using X[THEN conjunct1] by simp
  qed
  have l2: "snd (handler_credentials Ftp_list stored_u1 ''u1'' False stored_request) = [''A'']"
    by (simp add: handler_credentials_def consult_store_def Let_def stored_request_def
        truthy_str_def str_of_def takes_file_def reads_credentials_def split: prod.splits)
  have h2: "reads_credentials Ftp_list
            \<and> snd (handler_credentials Ftp_list stored_u1 ''u1'' False stored_request) \<noteq> []"
    by (simp add: l2 reads_credentials_def)
  have second: "truthy_str (rq_connectionId stored_request)
      \<and> (\<not> truthy_str (rq_username stored_request) \<or> \<not> truthy_str (rq_password stored_request))"
    by (rule T2[THEN conjunct2, THEN conjunct1, THEN mp, OF h2])
  have nu: "\<not> truthy_str (rq_username stored_request)"
    by (simp add: stored_request_def truthy_str_def)
  have c: "getConnectionCredentials stored_u1 (str_of (rq_connectionId stored_request)) ''u1'' =
             Some \<lparr>username = ''alice'', password = ''pw-a'', port = None, secure = None\<rparr>"
    by (simp add: stored_request_def str_of_def getConnectionCredentials_def stored_u1_def)
  have o2: "\<exists>c. fst (handler_credentials Ftp_list stored_u1 ''u1'' False stored_request) = Inr c"
    by (simp add: handler_credentials_def Let_def stored_request_def truthy_str_def takes_file_def
        split: prod.splits)
  have third: "fst (handler_credentials Ftp_list stored_u1 ''u1'' False stored_request)
       = Inr (''alice'', ''pw-a'')"
  proof -
    from o2 obtain c0 where c0: "fst (handler_credentials Ftp_list stored_u1 ''u1'' False stored_request) = Inr c0"
      by blast
    have p: "reads_credentials Ftp_list \<and> truthy_str (rq_connectionId stored_request)
      \<and> (\<not> truthy_str (rq_username stored_request) \<or> \<not> truthy_str (rq_password stored_request))"
      using h2 second by simp
    have "c0 = (username \<lparr>username = ''alice'', password = ''pw-a'', port = None, secure = None\<rparr>,
                password \<lparr>username = ''alice'', password = ''pw-a'', port = None, secure = None\<rparr>)"
      by (rule T2[THEN conjunct2, THEN conjunct2, THEN conjunct1, THEN mp, OF p, rule_format,
            OF conjI[OF c c0]])
    then show ?thesis using c0 by simp
  qed
  have h3: "\<not> reads_credentials Smb_upload"
    by (simp add: reads_credentials_def)
  have c3: "getConnectionCredentials stored_u1 (str_of (rq_connectionId share_request)) ''u1'' =
             Some \<lparr>username = ''alice'', password = ''pw-a'', port = None, secure = None\<rparr>"
    by (simp add: share_request_def str_of_def getConnectionCredentials_def stored_u1_def)
  have o3: "\<exists>c. handler_credentials Smb_upload stored_u1 ''u1'' True share_request = (Inr c, [''A''])"
    by (simp add: handler_credentials_def consult_store_upload_def Let_def share_request_def
        truthy_str_def str_of_def takes_file_def reads_credentials_def
        smb_host_share_def split_host_def getConnectionCredentials_def stored_u1_def)
  have fourth: "handler_credentials Smb_upload stored_u1 ''u1'' True share_request
       = (Inr (''alice'', ''pw-a''), [''A''])"
  proof -
    from o3 obtain c0 where c0: "handler_credentials Smb_upload stored_u1 ''u1'' True share_request = (Inr c0, [''A''])"
      by blast
    have "\<exists>s. getConnectionCredentials stored_u1 (str_of (rq_connectionId share_request)) ''u1'' = Some s
              \<and> c0 = (username s, password s)"
      by (rule T3[THEN conjunct2, THEN conjunct2, THEN conjunct2, THEN conjunct1, THEN mp, OF h3,
            rule_format, OF c0])
    then have "c0 = (''alice'', ''pw-a'')"
      by (simp add: c3)
    then show ?thesis using c0 by simp
  qed
  have k: "calls_of (transfer stored_u1 ''u1'' ''/app'' 1700000000000 ?e ?req worldA)
       = [Get (SftpServer ''a.example'' 22) (Some ''alice'', Some ''pw-a'') ''/docs/report.pdf'']"
    by (simp add: transfer_calls transfer_steps_def Let_def and_then_calls and_then_result
        step1_endpoint request_between_def creds_A endpoint_A port_A address_A download_to_def
        login_of_def)
  have cb: "login_of (getConnectionCredentials stored_u1 (conn_id (dstConnection ?req)) ''u1'')
              = (Some ''AKIA'', Some ''pw-b'')"
    by (simp add: request_between_def serverB_def getConnectionCredentials_def stored_u1_def
        login_of_def)
  have ca: "conn_id (srcConnection ?req) = ''A''"
    by (simp add: request_between_def serverA_def)
  have m: "Get (SftpServer ''a.example'' 22) (Some ''alice'', Some ''pw-a'') ''/docs/report.pdf''
             \<in> set (calls_of (transfer stored_u1 ''u1'' ''/app'' 1700000000000 ?e ?req worldA))"
    by (simp add: k)
  have fifth: "login_of (getConnectionCredentials stored_u1 ''A'' ''u1'') = (Some ''alice'', Some ''pw-a'')"
    using T1[THEN conjunct2, THEN conjunct2, THEN conjunct2, THEN conjunct2, rule_format, OF m]
    by (simp add: cb ca)
  show ?thesis
    by (intro conjI first l2 nu third fourth k fifth)
qed

text \<open>
  C6 as stated fails on the SFTP upload handler: a request that supplies the user name
  \<open>carol\<close> and a password, together with the id of a connection whose stored credentials
  are \<open>alice\<close>'s, opens its session as \<open>alice\<close>, after consulting the store.
\<close>

theorem upload_ignores_explicit_credentials:
  "rq_username carol_request = Some ''carol'' \<and> rq_password carol_request = Some ''pw-c''
   \<and> sftp_upload_session stored_u1 ''u1'' True carol_request =
       (Inr \<lparr>s_host = ''a.example'', s_port = 22, s_username = ''alice'', s_password = ''pw-a''\<rparr>,
        [''A''])"
  by (simp add: carol_request_def sftp_upload_session_def consult_store_upload_def Let_def
      truthy_str_def str_of_def getConnectionCredentials_def stored_u1_def or_default_def
      or_num_def truthy_num_def)

text \<open>
  C3, as the code has it: when \<open>localeCompare\<close> is a total and transitive comparison, the
  listings of the SFTP, FTP, SMB and NFS handlers hold no name that starts with a dot,
  list folders before files and, inside each group, names in \<open>localeCompare\<close> order; the
  SFTP listing holds exactly the entries read whose name does not start with a dot. The
  listing of a cloud drive is in the same order and keeps every name.
\<close>

theorem listings_filtered_and_ordered:
  assumes total: "\<forall>a b. lc a b \<le> 0 \<or> lc b a \<le> 0"
    and trans: "\<forall>a b c. lc a b \<le> 0 \<and> lc b c \<le> 0 \<longrightarrow> lc a c \<le> 0"
  shows "no_dot_names (sftp_list lc p l) \<and> folders_first_by_name lc (sftp_list lc p l)
       \<and> mset (sftp_list lc p l) =
           mset (filter (\<lambda>f. \<not> starts_with_dot (fi_name f)) (map (sftp_file_item p) l))
       \<and> no_dot_names (ftp_list lc p fl) \<and> folders_first_by_name lc (ftp_list lc p fl)
       \<and> no_dot_names (smb_list lc p sl) \<and> folders_first_by_name lc (smb_list lc p sl)
       \<and> no_dot_names (nfs_list lc p nl) \<and> folders_first_by_name lc (nfs_list lc p nl)
       \<and> folders_first_by_name lc (rclone_list lc p rl)
       \<and> mset (rclone_list lc p rl) = mset (map (rclone_file_item p) rl)"
proof -
  have lt: "\<And>a b. lc a b \<le> 0 \<or> lc b a \<le> 0"
    using total by simp
  have ltr: "\<And>a b c. lc a b \<le> 0 \<Longrightarrow> lc b c \<le> 0 \<Longrightarrow> lc a c \<le> 0"
    using trans by blast
  have t: "\<And>a b. compare_items lc a b \<le> 0 \<or> compare_items lc b a \<le> 0"
    by (rule compare_items_total) (rule lt)
  have tr: "\<And>a b c. compare_items lc a b \<le> 0 \<Longrightarrow> compare_items lc b c \<le> 0
              \<Longrightarrow> compare_items lc a c \<le> 0"
    by (rule compare_items_trans[of lc]) (erule (1) ltr, assumption+)
  have ord: "folders_first_by_name lc (js_sort (compare_items lc) xs)" for xs
    unfolding folders_first_by_name_def
  proof (rule sorted_wrt_mono_rel[OF _ sorted_js_sort[OF t tr]])
    fix a b
    assume "compare_items lc a b \<le> 0"
    then show "(fi_type a = Folder \<or> fi_type b = File)
                 \<and> (fi_type a = fi_type b \<longrightarrow> lc (fi_name a) (fi_name b) \<le> 0)"
      by (rule compare_items_le)
  qed
  have nd: "no_dot_names (filter_and_sort lc xs)" for xs
    by (simp add: no_dot_names_def filter_and_sort_def list_all_iff set_js_sort)
  have fo: "folders_first_by_name lc (filter_and_sort lc xs)" for xs
    unfolding filter_and_sort_def by (rule ord)
  have m: "mset (sftp_list lc p l) =
           mset (filter (\<lambda>f. \<not> starts_with_dot (fi_name f)) (map (sftp_file_item p) l))"
    by (simp add: sftp_list_def filter_and_sort_def mset_js_sort)
  have r: "folders_first_by_name lc (rclone_list lc p rl)"
    unfolding rclone_list_def by (rule ord)
  have rm: "mset (rclone_list lc p rl) = mset (map (rclone_file_item p) rl)"
    by (simp add: rclone_list_def mset_js_sort)
  show ?thesis
    using nd fo m r rm by (simp add: sftp_list_def ftp_list_def smb_list_def nfs_list_def)
qed

lemma scenario_listing:
  "map fi_name (sftp_list compare_codes ''/home/user'' scenario_dirents) = [''Alpha'', ''zeta.txt'']"
  by (simp add: sftp_list_def filter_and_sort_def scenario_dirents_def sftp_file_item_def
      starts_with_dot_def js_sort_def compare_items_def char_code_def)

theorem listings_filtered_and_ordered_witness:
  "folders_first_by_name compare_codes (sftp_list compare_codes ''/home/user'' scenario_dirents)
   \<and> no_dot_names (sftp_list compare_codes ''/home/user'' scenario_dirents)
   \<and> map fi_name (sftp_list compare_codes ''/home/user'' scenario_dirents) = [''Alpha'', ''zeta.txt'']"
proof -
  have t: "\<forall>a b. compare_codes a b \<le> 0 \<or> compare_codes b a \<le> 0"
    using compare_codes_total by blast
  have tr: "\<forall>a b c. compare_codes a b \<le> 0 \<and> compare_codes b c \<le> 0 \<longrightarrow> compare_codes a c \<le> 0"
    using compare_codes_trans by blast
  show ?thesis
    using listings_filtered_and_ordered[OF t tr, of "''/home/user''" scenario_dirents]
      scenario_listing
    by simp
qed

text \<open>
  C3 as stated fails on two listings. The local listing neither filters nor sorts: for
  the directory of the spec's scenario C, read in the order \<open>zeta.txt\<close>, \<open>Alpha\<close>,
  \<open>.hidden\<close>, it returns the three names in that order. The listing of a cloud drive
  sorts and keeps the dot name.
\<close>

theorem listings_unfiltered:
  "map fi_name (local_list ''/home/user'' scenario_names) = [''zeta.txt'', ''Alpha'', ''.hidden'']
   \<and> map fi_name (local_list ''/home/user'' scenario_names) \<noteq> [''Alpha'', ''zeta.txt'']
   \<and> map fi_name (rclone_list compare_codes ''/home/user'' scenario_entries)
       = [''Alpha'', ''.hidden'', ''zeta.txt'']"
  by (simp add: local_list_def List.map_filter_def local_file_item_def scenario_names_def
      rclone_list_def rclone_file_item_def scenario_entries_def js_sort_def compare_items_def
      char_code_def)

section \<open>Properties of the file explorer\<close>

lemma nondecreasing_sorted: "nondecreasing xs = sorted xs"
  by (induction xs rule: nondecreasing.induct) fastforce+

lemma on_tick_capped:
  assumes "progress st \<le> 95" and "currentProgress st \<le> 95" and "t \<noteq> Complete"
  shows "progress (on_tick t st) \<le> 95 \<and> currentProgress (on_tick t st) \<le> 95"
  using assms
  by (cases t) (auto simp: on_tick_def first_interval_def second_interval_def Let_def)

lemma shown_capped:
  assumes "progress st \<le> 95" and "currentProgress st \<le> 95" and "Complete \<notin> set ts"
  shows "\<forall>p \<in> set (shown st ts). p \<le> 95"
  using assms
proof (induction ts arbitrary: st)
  case Nil
  then show ?case by simp
next
  case (Cons t ts)
  have t: "t \<noteq> Complete" using Cons.prems(3) by auto
  have c: "progress (on_tick t st) \<le> 95 \<and> currentProgress (on_tick t st) \<le> 95"
    by (rule on_tick_capped[OF Cons.prems(1,2) t])
  then have "\<forall>p \<in> set (shown (on_tick t st) ts). p \<le> 95"
    using Cons.IH[of "on_tick t st"] Cons.prems(3) by simp
  with c show ?case by simp
qed

text \<open>
  C7 fails on the code: both intervals write the same record. With every random number
  one half and the intervals firing in turn, the shown values alternate between 12.5 and
  the accumulated value; once the accumulated value has reached 95 the second interval
  writes nothing more and the record stays at 12.5. After \<open>completeTransfer\<close> has set
  100, the first interval writes 12.5 again.
\<close>

theorem progress_goes_down:
  "list_all random_ok long_transfer \<and> list_all random_ok short_transfer
   \<and> shown initial_progress long_transfer =
       [25/2, 25/2, 25/2, 25, 25/2, 75/2, 25/2, 50, 25/2, 125/2, 25/2, 75, 25/2, 175/2,
        25/2, 95, 25/2, 25/2]
   \<and> \<not> nondecreasing (shown initial_progress long_transfer)
   \<and> shown initial_progress short_transfer = [25/2, 25/2, 100, 25/2]
   \<and> \<not> nondecreasing (shown initial_progress short_transfer)"
  by (simp add: long_transfer_def short_transfer_def rounds_def initial_progress_def on_tick_def
      first_interval_def second_interval_def completeTransfer_def Let_def eval_nat_numeral)

text \<open>
  C9. A copy inside one FTP connection never sends a request, whatever the server would
  answer: the handler either shows the conflict dialog (a name clash not yet resolved) or
  fails the transfer with the copy-not-supported error, and once a conflict choice is
  made it is the error.
\<close>

theorem ftp_copy_fails_before_any_request:
  assumes "targetActionFile st = Some file" and "destConnection st = Some dst"
    and "activeConnection st = Some src"
    and "ui_type src = FTP" and "ui_id dst = ui_id src"
    and "actionType st \<noteq> Some MoveAction"
  shows "snd (handleConfirmAction response_ok refresh_ok st) = []
       \<and> (fst (handleConfirmAction response_ok refresh_ok st) = TransferFailed FtpCopyNotSupported
          \<or> fst (handleConfirmAction response_ok refresh_ok st) = ConflictModalShown)
       \<and> (conflictAction st \<noteq> None \<longrightarrow>
            fst (handleConfirmAction response_ok refresh_ok st) = TransferFailed FtpCopyNotSupported)"
  using assms
  by (simp add: handleConfirmAction_def choose_request_def isCloudProvider_def Let_def)

theorem ftp_copy_fails_before_any_request_witness:
  "handleConfirmAction True True ftp_copy_state = (TransferFailed FtpCopyNotSupported, [])
   \<and> handleConfirmAction True True ftp_copy_replace_state = (TransferFailed FtpCopyNotSupported, [])"
proof -
  have h: "targetActionFile ftp_copy_state = Some \<lparr>uf_name = ''notes.txt'', uf_type = File\<rparr>"
    "destConnection ftp_copy_state = Some \<lparr>ui_id = ''F'', ui_type = FTP\<rparr>"
    "activeConnection ftp_copy_state = Some \<lparr>ui_id = ''F'', ui_type = FTP\<rparr>"
    "ui_type \<lparr>ui_id = ''F'', ui_type = FTP\<rparr> = FTP"
    "ui_id \<lparr>ui_id = ''F'', ui_type = FTP\<rparr> = ui_id \<lparr>ui_id = ''F'', ui_type = FTP\<rparr>"
    "actionType ftp_copy_state \<noteq> Some MoveAction"
    by (simp_all add: ftp_copy_state_def)
  have h': "targetActionFile ftp_copy_replace_state = Some \<lparr>uf_name = ''notes.txt'', uf_type = File\<rparr>"
    "destConnection ftp_copy_replace_state = Some \<lparr>ui_id = ''F'', ui_type = FTP\<rparr>"
    "activeConnection ftp_copy_replace_state = Some \<lparr>ui_id = ''F'', ui_type = FTP\<rparr>"
    "ui_type \<lparr>ui_id = ''F'', ui_type = FTP\<rparr> = FTP"
    "ui_id \<lparr>ui_id = ''F'', ui_type = FTP\<rparr> = ui_id \<lparr>ui_id = ''F'', ui_type = FTP\<rparr>"
    "actionType ftp_copy_replace_state \<noteq> Some MoveAction"
    by (simp_all add: ftp_copy_replace_state_def ftp_copy_state_def)
  have c: "fst (handleConfirmAction True True ftp_copy_state) \<noteq> ConflictModalShown"
    by (simp add: handleConfirmAction_def ftp_copy_state_def Let_def choose_request_def
        isCloudProvider_def)
  have r: "conflictAction ftp_copy_replace_state \<noteq> None"
    by (simp add: ftp_copy_replace_state_def)
  show ?thesis
    using ftp_copy_fails_before_any_request[OF h, of True True] c
      ftp_copy_fails_before_any_request[OF h', of True True] r
    by (simp add: prod_eq_iff)
qed
section \<open>Claims about staging paths\<close>

text \<open>
  C8, as the code has it: for file names without a slash, two transfers served from the
  same directory use the same staging path exactly when they started in the same
  millisecond and have the same file name; a different clock reading or a different file
  name gives a different path.
\<close>

theorem staging_paths_differ_by_time_or_name:
  assumes "CHR ''/'' \<notin> set f1" and "CHR ''/'' \<notin> set f2"
  shows "tempFile d n1 f1 = tempFile d n2 f2 \<longleftrightarrow> n1 = n2 \<and> f1 = f2"
proof
  assume "tempFile d n1 f1 = tempFile d n2 f2"
  then have "string_of_nat n1 @ CHR ''_'' # f1 = string_of_nat n2 @ CHR ''_'' # f2"
    by (simp add: temp_segment assms)
  then have "string_of_nat n1 = string_of_nat n2 \<and> f1 = f2"
    by (rule split_at_first[OF string_of_nat_no_underscore string_of_nat_no_underscore])
  then show "n1 = n2 \<and> f1 = f2"
    using string_of_nat_inj by blast
next
  assume "n1 = n2 \<and> f1 = f2"
  then show "tempFile d n1 f1 = tempFile d n2 f2" by simp
qed

theorem staging_paths_differ_by_time_or_name_witness:
  "tempFile ''/app'' 1700000000000 ''report.pdf'' \<noteq> tempFile ''/app'' 1700000000001 ''report.pdf''
   \<and> tempFile ''/app'' 1700000000000 ''report.pdf'' \<noteq> tempFile ''/app'' 1700000000000 ''notes.txt''"
proof -
  have a: "CHR ''/'' \<notin> set ''report.pdf''" and b: "CHR ''/'' \<notin> set ''notes.txt''"
    by simp_all
  show ?thesis
    using staging_paths_differ_by_time_or_name[OF a a, of "''/app''" 1700000000000 1700000000001]
      staging_paths_differ_by_time_or_name[OF a b, of "''/app''" 1700000000000 1700000000000]
    by simp
qed

text \<open>
  C8 as stated fails: the staging name holds the clock reading in milliseconds and the
  file name, nothing else. Two different requests for a file of the same name that start
  in the same millisecond get the same staging path.
\<close>

theorem staging_path_shared_in_same_millisecond:
  "request_between serverA serverB True False \<noteq> request_between serverB serverA False False
   \<and> tempFile ''/app'' 1700000000000 (fileName (request_between serverA serverB True False))
     = tempFile ''/app'' 1700000000000 (fileName (request_between serverB serverA False False))"
  by (simp add: request_between_def)

end
